theory Spec2Isabelle
  imports Main
begin

section \<open>Python values the program handles\<close>

text \<open>
  The exceptions that occur in the sources or reach them from their collaborators.
  \<open>KeyboardInterrupt\<close> and \<open>SystemExit\<close> derive from \<open>BaseException\<close> only; every
  other one derives from \<open>Exception\<close>, which is what \<open>except Exception:\<close> in
  \<open>database.py\<close> tests.
\<close>

datatype exn =
    RuntimeError string
  | ValueError string
  | AttributeError string
  | KeyError string
  | FileNotFoundError string
  | ClientError string
  | OtherException string
  | KeyboardInterrupt
  | SystemExit

fun is_Exception :: "exn \<Rightarrow> bool" where
  "is_Exception KeyboardInterrupt = False"
| "is_Exception SystemExit = False"
| "is_Exception _ = True"

text \<open>
  \<open>d.get(k, default)\<close> on a dictionary whose values may be \<open>None\<close>: a key that is
  present wins, also when its value is \<open>None\<close>.
\<close>

definition dict_get :: "('k \<rightharpoonup> 'v option) \<Rightarrow> 'k \<Rightarrow> 'v option \<Rightarrow> 'v option" where
  "dict_get d k dflt = (case d k of None \<Rightarrow> dflt | Some v \<Rightarrow> v)"

section \<open>The outside world: local files, the object store, the database library\<close>

text \<open>
  \<open>AWSConfig\<close> is a \<open>TypedDict(total=False)\<close>: a dictionary in which every key may be
  missing and every credential may be \<open>None\<close>.
\<close>

type_synonym AWSConfig = "string \<rightharpoonup> string option"

type_synonym ProviderConfig = AWSConfig

text \<open>
  The client object \<open>session.client("s3", region_name=...)\<close> returns. \<open>client_id\<close> is
  its identity (two clients built from equal arguments are still two objects); the
  other fields are the arguments it was built from.
\<close>

record S3Client =
  client_id :: nat
  client_profile_name :: "string option"
  client_service :: string
  client_region_name :: "string option"

text \<open>A listed object is a dictionary; a page of a listing carries them under "Contents", or has no such key.\<close>

type_synonym s3_object = "string \<rightharpoonup> string"

record page =
  Contents :: "s3_object list option"

datatype engine = Engine string

datatype sessionmaker = Sessionmaker engine

datatype orm_session = Session engine nat

text \<open>
  Every call that leaves the program, with its arguments in the callee's parameter
  order: \<open>upload_file(Filename, Bucket, Key)\<close>, \<open>download_file(Bucket, Key, Filename)\<close>,
  \<open>copy_object(Bucket, Key, CopySource)\<close>, \<open>delete_object(Bucket, Key)\<close>,
  \<open>paginate(Bucket, Prefix)\<close>.
\<close>

datatype ext_call =
    Open_write string string
  | Boto3_Session "string option"
  | Client "string option" string "string option"
  | Upload_file S3Client string string string
  | Download_file S3Client string string string
  | Copy_object S3Client string string string
  | Delete_object S3Client string string
  | Get_paginator S3Client string
  | Paginate S3Client string string
  | Create_engine string
  | New_session engine
  | Execute orm_session string
  | Commit orm_session
  | Rollback orm_session
  | Close orm_session

text \<open>
  The world the program runs in. \<open>objects\<close> is the object store, addressed by (bucket,
  key); \<open>files\<close> the local file system; \<open>page_stream\<close> the pages a listing of (bucket,
  prefix) produces, and the exception that ends it if one does; \<open>call_log\<close> every
  external call made so far, oldest first. \<open>faults\<close> says, for the n-th external call,
  whether the callee raises whatever the state of the store (a network failure, a
  missing profile, an interrupt): a theorem about all worlds covers every pattern of
  such failures.
\<close>

record World =
  objects :: "(string \<times> string) \<rightharpoonup> string"
  files :: "string \<rightharpoonup> string"
  page_stream :: "string \<Rightarrow> string \<Rightarrow> page list \<times> exn option"
  faults :: "nat \<Rightarrow> ext_call \<Rightarrow> exn option"
  call_log :: "ext_call list"

definition invoke :: "ext_call \<Rightarrow> World \<Rightarrow> exn option \<times> World" where
  "invoke c w = (faults w (length (call_log w)) c, w\<lparr>call_log := call_log w @ [c]\<rparr>)"

subsection \<open>boto3\<close>

definition sdk_Session :: "string option \<Rightarrow> World \<Rightarrow> (exn + string option) \<times> World" where
  "sdk_Session profile w =
     (case invoke (Boto3_Session profile) w of
        (Some e, w1) \<Rightarrow> (Inl e, w1)
      | (None, w1) \<Rightarrow> (Inr profile, w1))"

definition sdk_client ::
  "string option \<Rightarrow> string \<Rightarrow> string option \<Rightarrow> World \<Rightarrow> (exn + S3Client) \<times> World" where
  "sdk_client session service region w =
     (case invoke (Client session service region) w of
        (Some e, w1) \<Rightarrow> (Inl e, w1)
      | (None, w1) \<Rightarrow>
          (Inr \<lparr>client_id = length (call_log w), client_profile_name = session,
                client_service = service, client_region_name = region\<rparr>, w1))"

text \<open>
  Modelled from the spec: the provider's object operations, which are not part of the
  repository. \<open>upload\<close> "reads a local file and stores it at (bucket, key)" and fails
  "if the file is missing or the provider call fails"; \<open>download\<close> "fetches the remote
  object into a local path" and fails "if the object does not exist"; \<open>delete\<close>
  "removes the object"; the copy is "a server-side copy", whose source the provider
  reads from \<open>CopySource\<close> as bucket, a slash, key (the bucket ends at the first
  slash).
\<close>

definition sdk_upload_file ::
  "S3Client \<Rightarrow> string \<Rightarrow> string \<Rightarrow> string \<Rightarrow> World \<Rightarrow> (exn + unit) \<times> World" where
  "sdk_upload_file c Filename Bucket Key w =
     (case invoke (Upload_file c Filename Bucket Key) w of
        (Some e, w1) \<Rightarrow> (Inl e, w1)
      | (None, w1) \<Rightarrow>
          (case files w1 Filename of
             None \<Rightarrow> (Inl (FileNotFoundError Filename), w1)
           | Some d \<Rightarrow> (Inr (), w1\<lparr>objects := (objects w1)((Bucket, Key) \<mapsto> d)\<rparr>)))"

definition sdk_download_file ::
  "S3Client \<Rightarrow> string \<Rightarrow> string \<Rightarrow> string \<Rightarrow> World \<Rightarrow> (exn + unit) \<times> World" where
  "sdk_download_file c Bucket Key Filename w =
     (case invoke (Download_file c Bucket Key Filename) w of
        (Some e, w1) \<Rightarrow> (Inl e, w1)
      | (None, w1) \<Rightarrow>
          (case objects w1 (Bucket, Key) of
             None \<Rightarrow> (Inl (ClientError ''404''), w1)
           | Some d \<Rightarrow> (Inr (), w1\<lparr>files := (files w1)(Filename \<mapsto> d)\<rparr>)))"

definition parse_copy_source :: "string \<Rightarrow> (string \<times> string) option" where
  "parse_copy_source src =
     (if CHR ''/'' \<in> set src
      then Some (takeWhile (\<lambda>c. c \<noteq> CHR ''/'') src, tl (dropWhile (\<lambda>c. c \<noteq> CHR ''/'') src))
      else None)"

definition sdk_copy_object ::
  "S3Client \<Rightarrow> string \<Rightarrow> string \<Rightarrow> string \<Rightarrow> World \<Rightarrow> (exn + unit) \<times> World" where
  "sdk_copy_object c Bucket Key CopySource w =
     (case invoke (Copy_object c Bucket Key CopySource) w of
        (Some e, w1) \<Rightarrow> (Inl e, w1)
      | (None, w1) \<Rightarrow>
          (case parse_copy_source CopySource of
             None \<Rightarrow> (Inl (ClientError ''InvalidArgument''), w1)
           | Some src \<Rightarrow>
               (case objects w1 src of
                  None \<Rightarrow> (Inl (ClientError ''NoSuchKey''), w1)
                | Some d \<Rightarrow> (Inr (), w1\<lparr>objects := (objects w1)((Bucket, Key) \<mapsto> d)\<rparr>))))"

definition sdk_delete_object ::
  "S3Client \<Rightarrow> string \<Rightarrow> string \<Rightarrow> World \<Rightarrow> (exn + unit) \<times> World" where
  "sdk_delete_object c Bucket Key w =
     (case invoke (Delete_object c Bucket Key) w of
        (Some e, w1) \<Rightarrow> (Inl e, w1)
      | (None, w1) \<Rightarrow> (Inr (), w1\<lparr>objects := (objects w1)((Bucket, Key) := None)\<rparr>))"

definition sdk_get_paginator :: "S3Client \<Rightarrow> string \<Rightarrow> World \<Rightarrow> (exn + unit) \<times> World" where
  "sdk_get_paginator c name w =
     (case invoke (Get_paginator c name) w of
        (Some e, w1) \<Rightarrow> (Inl e, w1)
      | (None, w1) \<Rightarrow> (Inr (), w1))"

definition sdk_paginate ::
  "S3Client \<Rightarrow> string \<Rightarrow> string \<Rightarrow> World \<Rightarrow> (exn + page list \<times> exn option) \<times> World" where
  "sdk_paginate c Bucket Prefix w =
     (case invoke (Paginate c Bucket Prefix) w of
        (Some e, w1) \<Rightarrow> (Inl e, w1)
      | (None, w1) \<Rightarrow> (Inr (page_stream w1 Bucket Prefix), w1))"

section \<open>cloud\_manager.py: AWSCloudManager\<close>

text \<open>
  The fields \<open>__init__\<close> sets. \<open>priv_s3_client\<close> is the attribute \<open>_s3_client\<close> (an
  Isabelle name cannot start with an underscore).
\<close>

record AWSCloudManager =
  region_name :: "string option"
  profile_name :: "string option"
  access_key_id :: "string option"
  secret_key_id :: "string option"
  session_token :: "string option"
  priv_s3_client :: "S3Client option"

definition AWSCloudManager_init :: "AWSConfig \<Rightarrow> AWSCloudManager" where
  "AWSCloudManager_init config =
     \<lparr>region_name = dict_get config ''aws_region_name'' (Some ''us-east-1''),
      profile_name = dict_get config ''aws_profile_name'' None,
      access_key_id = dict_get config ''aws_access_key_id'' None,
      secret_key_id = dict_get config ''aws_secret_key_id'' None,
      session_token = dict_get config ''aws_session_token'' None,
      priv_s3_client = None\<rparr>"

text \<open>The property \<open>s3_client\<close>: the cached client, or a new one that it caches.\<close>

definition s3_client ::
  "AWSCloudManager \<Rightarrow> World \<Rightarrow> (exn + S3Client) \<times> AWSCloudManager \<times> World" where
  "s3_client self w =
     (case priv_s3_client self of
        Some c \<Rightarrow> (Inr c, self, w)
      | None \<Rightarrow>
          (case sdk_Session (profile_name self) w of
             (Inl e, w1) \<Rightarrow> (Inl e, self, w1)
           | (Inr session, w1) \<Rightarrow>
               (case sdk_client session ''s3'' (region_name self) w1 of
                  (Inl e, w2) \<Rightarrow> (Inl e, self, w2)
                | (Inr c, w2) \<Rightarrow> (Inr c, self\<lparr>priv_s3_client := Some c\<rparr>, w2))))"

definition AWSCloudManager_upload_object ::
  "AWSCloudManager \<Rightarrow> string \<Rightarrow> string \<Rightarrow> string \<Rightarrow> World
     \<Rightarrow> (exn + unit) \<times> AWSCloudManager \<times> World" where
  "AWSCloudManager_upload_object self file_path bucket_name object_key w =
     (case s3_client self w of
        (Inl e, self1, w1) \<Rightarrow> (Inl e, self1, w1)
      | (Inr c, self1, w1) \<Rightarrow>
          (case sdk_upload_file c file_path bucket_name object_key w1 of
             (r, w2) \<Rightarrow> (r, self1, w2)))"

definition AWSCloudManager_download_object ::
  "AWSCloudManager \<Rightarrow> string \<Rightarrow> string \<Rightarrow> string \<Rightarrow> World
     \<Rightarrow> (exn + unit) \<times> AWSCloudManager \<times> World" where
  "AWSCloudManager_download_object self bucket_name object_key file_path w =
     (case s3_client self w of
        (Inl e, self1, w1) \<Rightarrow> (Inl e, self1, w1)
      | (Inr c, self1, w1) \<Rightarrow>
          (case sdk_download_file c bucket_name object_key file_path w1 of
             (r, w2) \<Rightarrow> (r, self1, w2)))"

definition AWSCloudManager_delete_object ::
  "AWSCloudManager \<Rightarrow> string \<Rightarrow> string \<Rightarrow> World
     \<Rightarrow> (exn + unit) \<times> AWSCloudManager \<times> World" where
  "AWSCloudManager_delete_object self bucket_name object_key w =
     (case s3_client self w of
        (Inl e, self1, w1) \<Rightarrow> (Inl e, self1, w1)
      | (Inr c, self1, w1) \<Rightarrow>
          (case sdk_delete_object c bucket_name object_key w1 of
             (r, w2) \<Rightarrow> (r, self1, w2)))"

definition AWSCloudManager_move_object ::
  "AWSCloudManager \<Rightarrow> string \<Rightarrow> string \<Rightarrow> string \<Rightarrow> bool \<Rightarrow> World
     \<Rightarrow> (exn + unit) \<times> AWSCloudManager \<times> World" where
  "AWSCloudManager_move_object self bucket_name object_key dest_object_key delete_source w =
     (case AWSCloudManager_upload_object self bucket_name object_key dest_object_key w of
        (Inl e, self1, w1) \<Rightarrow> (Inl e, self1, w1)
      | (Inr u, self1, w1) \<Rightarrow>
          (if delete_source
           then AWSCloudManager_delete_object self1 bucket_name object_key w1
           else (Inr (), self1, w1)))"

definition AWSCloudManager_transfer_object ::
  "AWSCloudManager \<Rightarrow> string \<Rightarrow> string \<Rightarrow> string \<Rightarrow> string \<Rightarrow> bool \<Rightarrow> World
     \<Rightarrow> (exn + unit) \<times> AWSCloudManager \<times> World" where
  "AWSCloudManager_transfer_object self bucket_name object_key dest_bucket_name
       dest_object_key delete_source w =
     (let copy_source = bucket_name @ ''/'' @ object_key in
      case s3_client self w of
        (Inl e, self1, w1) \<Rightarrow> (Inl e, self1, w1)
      | (Inr c, self1, w1) \<Rightarrow>
          (case sdk_copy_object c dest_bucket_name dest_object_key copy_source w1 of
             (Inl e, w2) \<Rightarrow> (Inl e, self1, w2)
           | (Inr u, w2) \<Rightarrow>
               (if delete_source
                then AWSCloudManager_delete_object self1 bucket_name object_key w2
                else (Inr (), self1, w2))))"

text \<open>
  \<open>list_dir\<close> is a generator function: the call runs nothing and returns the suspended
  body with its arguments. \<open>exhaust\<close> is that body iterated to its end (as
  \<open>list(...)\<close> or a \<open>for\<close> loop does) against the manager the generator belongs to: the
  keys it yields, in order, and the exception that ends it if one does.
\<close>

datatype generator = Generator string string

fun yield_keys :: "s3_object list \<Rightarrow> string list \<times> exn option" where
  "yield_keys [] = ([], None)"
| "yield_keys (obj # objs) =
     (case obj ''Key'' of
        None \<Rightarrow> ([], Some (KeyError ''Key''))
      | Some k \<Rightarrow> (case yield_keys objs of (ks, e) \<Rightarrow> (k # ks, e)))"

fun iterate_pages :: "page list \<Rightarrow> exn option \<Rightarrow> string list \<times> exn option" where
  "iterate_pages [] ending = ([], ending)"
| "iterate_pages (p # ps) ending =
     (case yield_keys (case Contents p of None \<Rightarrow> [] | Some objs \<Rightarrow> objs) of
        (ks, Some e) \<Rightarrow> (ks, Some e)
      | (ks, None) \<Rightarrow> (case iterate_pages ps ending of (ks', e) \<Rightarrow> (ks @ ks', e)))"

definition AWSCloudManager_list_dir :: "AWSCloudManager \<Rightarrow> string \<Rightarrow> string \<Rightarrow> generator" where
  "AWSCloudManager_list_dir self bucket_name prefix = Generator bucket_name prefix"

fun exhaust ::
  "generator \<Rightarrow> AWSCloudManager \<Rightarrow> World
     \<Rightarrow> (string list \<times> exn option) \<times> AWSCloudManager \<times> World" where
  "exhaust (Generator bucket_name prefix) self w =
     (case s3_client self w of
        (Inl e, self1, w1) \<Rightarrow> (([], Some e), self1, w1)
      | (Inr c, self1, w1) \<Rightarrow>
          (case sdk_get_paginator c ''list_objects_v2'' w1 of
             (Inl e, w2) \<Rightarrow> (([], Some e), self1, w2)
           | (Inr u, w2) \<Rightarrow>
               (case sdk_paginate c bucket_name prefix w2 of
                  (Inl e, w3) \<Rightarrow> (([], Some e), self1, w3)
                | (Inr (pages, ending), w3) \<Rightarrow> (iterate_pages pages ending, self1, w3))))"

section \<open>cloud\_manager.py: CloudManager\<close>

text \<open>
  The enumeration \<open>CloudProvider\<close> has the single member \<open>AWS\<close>, whose value is the
  string "aws"; the other two are commented out in the source.
\<close>

datatype CloudProvider = AWS

fun CloudProvider_value :: "CloudProvider \<Rightarrow> string" where
  "CloudProvider_value AWS = ''aws''"

definition CloudProvider_members :: "CloudProvider list" where
  "CloudProvider_members = [AWS]"

text \<open>
  The annotation \<open>provider: CloudProvider\<close> of \<open>CloudManager.__init__\<close> is not enforced
  when the program runs: the attribute \<open>_provider\<close> holds a member of the enumeration,
  or any other object (\<open>NonMember\<close>, with a description of it), which equals no member.
\<close>

datatype provider_value = Member CloudProvider | NonMember string

record CloudManager =
  priv_provider :: provider_value
  priv_config :: ProviderConfig
  priv_manager :: "AWSCloudManager option"

definition CloudManager_init :: "provider_value \<Rightarrow> ProviderConfig \<Rightarrow> CloudManager" where
  "CloudManager_init provider config =
     \<lparr>priv_provider = provider, priv_config = config, priv_manager = None\<rparr>"

text \<open>
  The property \<open>manager\<close>. Its \<open>match\<close> has the one case \<open>CloudProvider.AWS\<close> and no
  default: for any other value nothing is assigned and the property returns \<open>None\<close>.
\<close>

definition manager :: "CloudManager \<Rightarrow> AWSCloudManager option \<times> CloudManager" where
  "manager self =
     (case priv_manager self of
        Some m \<Rightarrow> (Some m, self)
      | None \<Rightarrow>
          (case priv_provider self of
             Member AWS \<Rightarrow>
               (let m = AWSCloudManager_init (priv_config self)
                in (Some m, self\<lparr>priv_manager := Some m\<rparr>))
           | NonMember v \<Rightarrow> (None, self)))"

text \<open>
  The six forwarding methods. A method call on \<open>None\<close> raises \<open>AttributeError\<close> (here
  with the name of the attribute). The object \<open>self.manager\<close> returns is the one
  \<open>_manager\<close> refers to, so what the callee does to it is written back to the field.
\<close>

definition CloudManager_upload_object ::
  "CloudManager \<Rightarrow> string \<Rightarrow> string \<Rightarrow> string \<Rightarrow> World
     \<Rightarrow> (exn + unit) \<times> CloudManager \<times> World" where
  "CloudManager_upload_object self file_path bucket_name object_key w =
     (case manager self of
        (None, self1) \<Rightarrow> (Inl (AttributeError ''upload_object''), self1, w)
      | (Some m, self1) \<Rightarrow>
          (case AWSCloudManager_upload_object m file_path bucket_name object_key w of
             (r, m1, w1) \<Rightarrow> (r, self1\<lparr>priv_manager := Some m1\<rparr>, w1)))"

definition CloudManager_download_object ::
  "CloudManager \<Rightarrow> string \<Rightarrow> string \<Rightarrow> string \<Rightarrow> World
     \<Rightarrow> (exn + unit) \<times> CloudManager \<times> World" where
  "CloudManager_download_object self bucket_name object_key file_path w =
     (case manager self of
        (None, self1) \<Rightarrow> (Inl (AttributeError ''download_object''), self1, w)
      | (Some m, self1) \<Rightarrow>
          (case AWSCloudManager_download_object m bucket_name object_key file_path w of
             (r, m1, w1) \<Rightarrow> (r, self1\<lparr>priv_manager := Some m1\<rparr>, w1)))"

definition CloudManager_move_object ::
  "CloudManager \<Rightarrow> string \<Rightarrow> string \<Rightarrow> string \<Rightarrow> bool \<Rightarrow> World
     \<Rightarrow> (exn + unit) \<times> CloudManager \<times> World" where
  "CloudManager_move_object self bucket_name object_key dest_object_key delete_source w =
     (case manager self of
        (None, self1) \<Rightarrow> (Inl (AttributeError ''move_object''), self1, w)
      | (Some m, self1) \<Rightarrow>
          (case AWSCloudManager_move_object m bucket_name object_key dest_object_key
                  delete_source w of
             (r, m1, w1) \<Rightarrow> (r, self1\<lparr>priv_manager := Some m1\<rparr>, w1)))"

definition CloudManager_transfer_object ::
  "CloudManager \<Rightarrow> string \<Rightarrow> string \<Rightarrow> string \<Rightarrow> string \<Rightarrow> bool \<Rightarrow> World
     \<Rightarrow> (exn + unit) \<times> CloudManager \<times> World" where
  "CloudManager_transfer_object self bucket_name object_key dest_bucket_name
       dest_object_key delete_source w =
     (case manager self of
        (None, self1) \<Rightarrow> (Inl (AttributeError ''transfer_object''), self1, w)
      | (Some m, self1) \<Rightarrow>
          (case AWSCloudManager_transfer_object m bucket_name object_key dest_bucket_name
                  dest_object_key delete_source w of
             (r, m1, w1) \<Rightarrow> (r, self1\<lparr>priv_manager := Some m1\<rparr>, w1)))"

definition CloudManager_delete_object ::
  "CloudManager \<Rightarrow> string \<Rightarrow> string \<Rightarrow> World
     \<Rightarrow> (exn + unit) \<times> CloudManager \<times> World" where
  "CloudManager_delete_object self bucket_name object_key w =
     (case manager self of
        (None, self1) \<Rightarrow> (Inl (AttributeError ''delete_object''), self1, w)
      | (Some m, self1) \<Rightarrow>
          (case AWSCloudManager_delete_object m bucket_name object_key w of
             (r, m1, w1) \<Rightarrow> (r, self1\<lparr>priv_manager := Some m1\<rparr>, w1)))"

text \<open>
  \<open>CloudManager.list_dir\<close> has no \<open>yield\<close> of its own: it evaluates \<open>self.manager\<close> at
  the call and returns the concrete manager's generator.
\<close>

definition CloudManager_list_dir ::
  "CloudManager \<Rightarrow> string \<Rightarrow> string \<Rightarrow> (exn + generator) \<times> CloudManager" where
  "CloudManager_list_dir self bucket_name prefix =
     (case manager self of
        (None, self1) \<Rightarrow> (Inl (AttributeError ''list_dir''), self1)
      | (Some m, self1) \<Rightarrow> (Inr (AWSCloudManager_list_dir m bucket_name prefix), self1))"

subsection \<open>One operation of the interface, on either class\<close>

text \<open>
  The six operations of \<open>AbstractCloudManager\<close> with their arguments, and what a
  caller sees of one: it returned, it raised, or (for \<open>list_dir\<close>, whose generator the
  caller iterates to its end) the keys it yielded and how the iteration ended.
\<close>

datatype operation =
    Call_upload_object string string string
  | Call_download_object string string string
  | Call_move_object string string string bool
  | Call_transfer_object string string string string bool
  | Call_delete_object string string
  | Call_list_dir string string

datatype outcome = Returned | Raised exn | Yielded "string list" "exn option"

fun outcome_of :: "exn + unit \<Rightarrow> outcome" where
  "outcome_of (Inl e) = Raised e"
| "outcome_of (Inr u) = Returned"

fun AWSCloudManager_call ::
  "operation \<Rightarrow> AWSCloudManager \<Rightarrow> World \<Rightarrow> outcome \<times> AWSCloudManager \<times> World" where
  "AWSCloudManager_call (Call_upload_object f b k) self w =
     (case AWSCloudManager_upload_object self f b k w of (r, self1, w1) \<Rightarrow> (outcome_of r, self1, w1))"
| "AWSCloudManager_call (Call_download_object b k f) self w =
     (case AWSCloudManager_download_object self b k f w of (r, self1, w1) \<Rightarrow> (outcome_of r, self1, w1))"
| "AWSCloudManager_call (Call_move_object b k dk d) self w =
     (case AWSCloudManager_move_object self b k dk d w of (r, self1, w1) \<Rightarrow> (outcome_of r, self1, w1))"
| "AWSCloudManager_call (Call_transfer_object b k db dk d) self w =
     (case AWSCloudManager_transfer_object self b k db dk d w of
        (r, self1, w1) \<Rightarrow> (outcome_of r, self1, w1))"
| "AWSCloudManager_call (Call_delete_object b k) self w =
     (case AWSCloudManager_delete_object self b k w of (r, self1, w1) \<Rightarrow> (outcome_of r, self1, w1))"
| "AWSCloudManager_call (Call_list_dir b p) self w =
     (case exhaust (AWSCloudManager_list_dir self b p) self w of
        ((ks, e), self1, w1) \<Rightarrow> (Yielded ks e, self1, w1))"

text \<open>
  On the facade the generator \<open>list_dir\<close> returns is iterated against the manager the
  facade has cached by then. (The last case cannot occur: a generator is returned only
  once a manager is cached.)
\<close>

fun CloudManager_call ::
  "operation \<Rightarrow> CloudManager \<Rightarrow> World \<Rightarrow> outcome \<times> CloudManager \<times> World" where
  "CloudManager_call (Call_upload_object f b k) self w =
     (case CloudManager_upload_object self f b k w of (r, self1, w1) \<Rightarrow> (outcome_of r, self1, w1))"
| "CloudManager_call (Call_download_object b k f) self w =
     (case CloudManager_download_object self b k f w of (r, self1, w1) \<Rightarrow> (outcome_of r, self1, w1))"
| "CloudManager_call (Call_move_object b k dk d) self w =
     (case CloudManager_move_object self b k dk d w of (r, self1, w1) \<Rightarrow> (outcome_of r, self1, w1))"
| "CloudManager_call (Call_transfer_object b k db dk d) self w =
     (case CloudManager_transfer_object self b k db dk d w of
        (r, self1, w1) \<Rightarrow> (outcome_of r, self1, w1))"
| "CloudManager_call (Call_delete_object b k) self w =
     (case CloudManager_delete_object self b k w of (r, self1, w1) \<Rightarrow> (outcome_of r, self1, w1))"
| "CloudManager_call (Call_list_dir b p) self w =
     (case CloudManager_list_dir self b p of
        (Inl e, self1) \<Rightarrow> (Raised e, self1, w)
      | (Inr g, self1) \<Rightarrow>
          (case priv_manager self1 of
             Some m \<Rightarrow>
               (case exhaust g m w of
                  ((ks, e), m1, w1) \<Rightarrow> (Yielded ks e, self1\<lparr>priv_manager := Some m1\<rparr>, w1))
           | None \<Rightarrow> (Yielded [] None, self1, w)))"

text \<open>A sequence of operations on one manager, each on the state the one before left.\<close>

fun AWSCloudManager_calls ::
  "operation list \<Rightarrow> AWSCloudManager \<Rightarrow> World \<Rightarrow> outcome list \<times> AWSCloudManager \<times> World" where
  "AWSCloudManager_calls [] self w = ([], self, w)"
| "AWSCloudManager_calls (operation # rest) self w =
     (case AWSCloudManager_call operation self w of
        (r, self1, w1) \<Rightarrow>
          (case AWSCloudManager_calls rest self1 w1 of (rs, self2, w2) \<Rightarrow> (r # rs, self2, w2)))"

fun CloudManager_calls ::
  "operation list \<Rightarrow> CloudManager \<Rightarrow> World \<Rightarrow> outcome list \<times> CloudManager \<times> World" where
  "CloudManager_calls [] self w = ([], self, w)"
| "CloudManager_calls (operation # rest) self w =
     (case CloudManager_call operation self w of
        (r, self1, w1) \<Rightarrow>
          (case CloudManager_calls rest self1 w1 of (rs, self2, w2) \<Rightarrow> (r # rs, self2, w2)))"

section \<open>database.py\<close>

subsection \<open>sqlalchemy\<close>

definition sql_create_engine :: "string \<Rightarrow> World \<Rightarrow> (exn + engine) \<times> World" where
  "sql_create_engine url w =
     (case invoke (Create_engine url) w of
        (Some e, w1) \<Rightarrow> (Inl e, w1)
      | (None, w1) \<Rightarrow> (Inr (Engine url), w1))"

text \<open>Calling a \<open>sessionmaker\<close> makes a new session bound to its engine.\<close>

fun sql_new_session :: "sessionmaker \<Rightarrow> World \<Rightarrow> (exn + orm_session) \<times> World" where
  "sql_new_session (Sessionmaker bind) w =
     (case invoke (New_session bind) w of
        (Some e, w1) \<Rightarrow> (Inl e, w1)
      | (None, w1) \<Rightarrow> (Inr (Session bind (length (call_log w))), w1))"

definition sql_method :: "ext_call \<Rightarrow> World \<Rightarrow> (exn + unit) \<times> World" where
  "sql_method c w =
     (case invoke c w of
        (Some e, w1) \<Rightarrow> (Inl e, w1)
      | (None, w1) \<Rightarrow> (Inr (), w1))"

definition sql_execute :: "orm_session \<Rightarrow> string \<Rightarrow> World \<Rightarrow> (exn + unit) \<times> World" where
  "sql_execute s stmt = sql_method (Execute s stmt)"

definition sql_commit :: "orm_session \<Rightarrow> World \<Rightarrow> (exn + unit) \<times> World" where
  "sql_commit s = sql_method (Commit s)"

definition sql_rollback :: "orm_session \<Rightarrow> World \<Rightarrow> (exn + unit) \<times> World" where
  "sql_rollback s = sql_method (Rollback s)"

definition sql_close :: "orm_session \<Rightarrow> World \<Rightarrow> (exn + unit) \<times> World" where
  "sql_close s = sql_method (Close s)"

subsection \<open>Database\<close>

record Database =
  priv_db :: engine
  priv_db_ro :: "engine option"
  priv_session :: sessionmaker
  priv_session_ro :: "sessionmaker option"

text \<open>
  \<open>__init__\<close>. The test \<open>if readonly_url\<close> is false for \<open>None\<close> and for the empty
  string; an engine and a \<open>sessionmaker\<close> are objects without \<open>__bool__\<close> or \<open>__len__\<close>,
  so \<open>if self._db_ro\<close> tests for \<open>None\<close>.
\<close>

definition Database_init ::
  "string \<Rightarrow> string option \<Rightarrow> World \<Rightarrow> (exn + Database) \<times> World" where
  "Database_init write_url readonly_url w =
     (case sql_create_engine write_url w of
        (Inl e, w1) \<Rightarrow> (Inl e, w1)
      | (Inr db, w1) \<Rightarrow>
          (case (case readonly_url of
                   None \<Rightarrow> (Inr None, w1)
                 | Some url \<Rightarrow>
                     (if url = [] then (Inr None, w1)
                      else (case sql_create_engine url w1 of
                              (Inl e, w2) \<Rightarrow> (Inl e, w2)
                            | (Inr ro, w2) \<Rightarrow> (Inr (Some ro), w2)))) of
             (Inl e, w2) \<Rightarrow> (Inl e, w2)
           | (Inr db_ro, w2) \<Rightarrow>
               (Inr \<lparr>priv_db = db, priv_db_ro = db_ro,
                     priv_session = Sessionmaker db,
                     priv_session_ro =
                       (case db_ro of None \<Rightarrow> None | Some ro \<Rightarrow> Some (Sessionmaker ro))\<rparr>,
                w2)))"

text \<open>
  The body of \<open>session\<close> after the session is made, block by block. \<open>body\<close> is the
  code of the \<open>with\<close> statement, which runs at the \<open>yield\<close>: it returns or raises.
\<close>

type_synonym scope_body = "orm_session \<Rightarrow> World \<Rightarrow> (exn + unit) \<times> World"

definition try_block :: "orm_session \<Rightarrow> scope_body \<Rightarrow> World \<Rightarrow> (exn + unit) \<times> World" where
  "try_block s body w =
     (case body s w of
        (Inl e, w1) \<Rightarrow> (Inl e, w1)
      | (Inr u, w1) \<Rightarrow> sql_commit s w1)"

definition except_block :: "orm_session \<Rightarrow> (exn + unit) \<times> World \<Rightarrow> (exn + unit) \<times> World" where
  "except_block s rw =
     (case rw of
        (Inr u, w) \<Rightarrow> (Inr u, w)
      | (Inl e, w) \<Rightarrow>
          (if is_Exception e
           then (case sql_rollback s w of
                   (Inl e', w1) \<Rightarrow> (Inl e', w1)
                 | (Inr u, w1) \<Rightarrow> (Inl e, w1))
           else (Inl e, w)))"

definition finally_block :: "orm_session \<Rightarrow> (exn + unit) \<times> World \<Rightarrow> (exn + unit) \<times> World" where
  "finally_block s rw =
     (case rw of
        (r, w) \<Rightarrow>
          (case sql_close s w of
             (Inl e', w1) \<Rightarrow> (Inl e', w1)
           | (Inr u, w1) \<Rightarrow> (r, w1)))"

definition session_scope :: "orm_session \<Rightarrow> scope_body \<Rightarrow> World \<Rightarrow> (exn + unit) \<times> World" where
  "session_scope s body w = finally_block s (except_block s (try_block s body w))"

definition readonly_not_configured :: string where
  "readonly_not_configured =
     ''Readonly connection not configured. Provide readonly_url when initializing the database.''"

text \<open>
  \<open>with db.session(readonly) as s: body\<close>. The function is a \<open>contextmanager\<close>: its
  code up to the \<open>yield\<close> runs when the \<open>with\<close> statement is entered. The three rows
  are the branches of the source in their order: \<open>readonly and self._session_ro\<close>,
  \<open>not readonly\<close>, and the \<open>else\<close> that raises.
\<close>

definition Database_session ::
  "Database \<Rightarrow> bool \<Rightarrow> scope_body \<Rightarrow> World \<Rightarrow> (exn + unit) \<times> World" where
  "Database_session self readonly body w =
     (case (case (readonly, priv_session_ro self) of
              (True, Some session_ro) \<Rightarrow> sql_new_session session_ro w
            | (False, ro) \<Rightarrow> sql_new_session (priv_session self) w
            | (True, None) \<Rightarrow> (Inl (RuntimeError readonly_not_configured), w)) of
        (Inl e, w1) \<Rightarrow> (Inl e, w1)
      | (Inr s, w1) \<Rightarrow> session_scope s body w1)"

section \<open>dl\_archiver: config.py and main\<close>

definition getenv :: "(string \<rightharpoonup> string) \<Rightarrow> string \<Rightarrow> string option \<Rightarrow> string option" where
  "getenv env k dflt = (case env k of None \<Rightarrow> dflt | Some v \<Rightarrow> Some v)"

record Config =
  aws_region_name :: "string option"
  aws_access_key_id :: "string option"
  aws_secret_key_id :: "string option"
  aws_session_token :: "string option"
  aws_profile_name :: "string option"
  priv_provider_name :: "string option"
  database_url :: "string option"
  readonly_database_url :: "string option"

definition Config_init :: "(string \<rightharpoonup> string) \<Rightarrow> Config" where
  "Config_init env =
     \<lparr>aws_region_name = getenv env ''AWS_REGION'' (Some ''us-east-1''),
      aws_access_key_id = getenv env ''AWS_ACCESS_KEY_ID'' None,
      aws_secret_key_id = getenv env ''AWS_SECRET_KEY_ID'' None,
      aws_session_token = getenv env ''AWS_SESSION_TOKEN'' None,
      aws_profile_name = getenv env ''AWS_PROFILE_NAME'' None,
      priv_provider_name = getenv env ''CLOUD_PROVIDER'' None,
      database_url = getenv env ''DATABASE_URL'' (Some ''sqlite:///:memory:''),
      readonly_database_url = getenv env ''READONLY_DATABASE_URL'' None\<rparr>"

text \<open>
  \<open>str.lower\<close>. A \<open>string\<close> here is the text's bytes; outside ASCII Python's \<open>lower\<close>
  maps letters to letters outside ASCII, and no character outside ASCII has an ASCII
  letter of "aws" as its lower case, so leaving those bytes as they are changes
  neither which selectors are recognised nor any message (the messages quote the
  selector as given, not lowered).
\<close>

definition lower_char :: "char \<Rightarrow> char" where
  "lower_char c =
     (let n = (of_char c :: nat) in if 65 \<le> n \<and> n \<le> 90 then char_of (n + 32) else c)"

definition lower :: "string \<Rightarrow> string" where
  "lower s = map lower_char s"

text \<open>\<open>CloudProvider(value)\<close>: the member with this value, or \<open>ValueError\<close>.\<close>

definition CloudProvider_call :: "string \<Rightarrow> exn + CloudProvider" where
  "CloudProvider_call v =
     (case filter (\<lambda>p. CloudProvider_value p = v) CloudProvider_members of
        [] \<Rightarrow> Inl (ValueError (v @ '' is not a valid CloudProvider''))
      | p # ps \<Rightarrow> Inr p)"

text \<open>How Python prints a list of (plain) strings inside an f-string: \<open>['aws']\<close>.\<close>

definition repr_str :: "string \<Rightarrow> string" where
  "repr_str s = [char_of (39 :: nat)] @ s @ [char_of (39 :: nat)]"

fun join :: "string \<Rightarrow> string list \<Rightarrow> string" where
  "join sep [] = []"
| "join sep [x] = x"
| "join sep (x # y # ys) = x @ sep @ join sep (y # ys)"

definition repr_list :: "string list \<Rightarrow> string" where
  "repr_list xs = ''['' @ join '', '' (map repr_str xs) @ '']''"

definition cloud_provider :: "Config \<Rightarrow> exn + CloudProvider" where
  "cloud_provider self =
     (case priv_provider_name self of
        None \<Rightarrow> Inl (ValueError ''CLOUD_PROVIDER environment variable is not set'')
      | Some name \<Rightarrow>
          (if name = [] then Inl (ValueError ''CLOUD_PROVIDER environment variable is not set'')
           else (case CloudProvider_call (lower name) of
                   Inr p \<Rightarrow> Inr p
                 | Inl err \<Rightarrow>
                     (let valid_providers = map CloudProvider_value CloudProvider_members
                      in Inl (ValueError (''Invalid cloud provider: '' @ name
                                @ ''. Valid providers: '' @ repr_list valid_providers))))))"

definition provider_config :: "Config \<Rightarrow> ProviderConfig" where
  "provider_config self =
     [''aws_region_name'' \<mapsto> aws_region_name self,
      ''aws_access_key_id'' \<mapsto> aws_access_key_id self,
      ''aws_secret_key_id'' \<mapsto> aws_secret_key_id self,
      ''aws_session_token'' \<mapsto> aws_session_token self,
      ''aws_profile_name'' \<mapsto> aws_profile_name self]"

text \<open>\<open>open(path, "w")\<close> and \<open>write\<close>: the file then holds exactly the data.\<close>

definition open_write :: "string \<Rightarrow> string \<Rightarrow> World \<Rightarrow> (exn + unit) \<times> World" where
  "open_write path data w =
     (case invoke (Open_write path data) w of
        (Some e, w1) \<Rightarrow> (Inl e, w1)
      | (None, w1) \<Rightarrow> (Inr (), w1\<lparr>files := (files w1)(path \<mapsto> data)\<rparr>))"

definition update_stmt :: string where
  "update_stmt = ''UPDATE files SET path = new_path.txt WHERE files.path = test.txt''"

text \<open>
  \<open>main\<close> of \<open>dl_archiver\<close>, given the module's \<open>config\<close> and \<open>db\<close>. The arguments of
  \<open>CloudManager(...)\<close> are evaluated left to right, \<open>config.cloud_provider\<close> first.
\<close>

definition main :: "Config \<Rightarrow> Database \<Rightarrow> World \<Rightarrow> (exn + unit) \<times> World" where
  "main config db w =
     (case open_write ''test.txt'' ''Hello, world!'' w of
        (Inl e, w1) \<Rightarrow> (Inl e, w1)
      | (Inr u, w1) \<Rightarrow>
          (case cloud_provider config of
             Inl e \<Rightarrow> (Inl e, w1)
           | Inr p \<Rightarrow>
               (let cm = CloudManager_init (Member p) (provider_config config) in
                case CloudManager_upload_object cm ''test.txt'' ''test-bucket'' ''test.txt'' w1 of
                  (Inl e, cm1, w2) \<Rightarrow> (Inl e, w2)
                | (Inr u, cm1, w2) \<Rightarrow>
                    Database_session db True (\<lambda>session. sql_execute session update_stmt) w2)))"

section \<open>What is observed of a run\<close>

text \<open>
  The calls a run added to the log, and among them the requests made on a client
  (everything but the two calls that build one).
\<close>

fun is_construction :: "ext_call \<Rightarrow> bool" where
  "is_construction (Boto3_Session p) = True"
| "is_construction (Client s v r) = True"
| "is_construction _ = False"

definition new_calls :: "World \<Rightarrow> World \<Rightarrow> ext_call list" where
  "new_calls w w' = drop (length (call_log w)) (call_log w')"

definition requests :: "World \<Rightarrow> World \<Rightarrow> ext_call list" where
  "requests w w' = filter (\<lambda>c. \<not> is_construction c) (new_calls w w')"

text \<open>The keys a page lists: those of the objects under "Contents", none without the field.\<close>

definition page_keys :: "page \<Rightarrow> string list" where
  "page_keys p =
     (case Contents p of None \<Rightarrow> [] | Some objs \<Rightarrow> List.map_filter (\<lambda>obj. obj ''Key'') objs)"

text \<open>
  The client a request is made on, and a run all of whose new calls are requests on
  one client \<open>c\<close> (so none of them builds a session or a client).
\<close>

fun call_client :: "ext_call \<Rightarrow> S3Client option" where
  "call_client (Upload_file c f b k) = Some c"
| "call_client (Download_file c b k f) = Some c"
| "call_client (Copy_object c b k s) = Some c"
| "call_client (Delete_object c b k) = Some c"
| "call_client (Get_paginator c n) = Some c"
| "call_client (Paginate c b p) = Some c"
| "call_client _ = None"

definition on_client :: "S3Client \<Rightarrow> World \<Rightarrow> World \<Rightarrow> bool" where
  "on_client c w w' =
     (length (call_log w) \<le> length (call_log w') \<and>
      take (length (call_log w)) (call_log w') = call_log w \<and>
      list_all (\<lambda>x. call_client x = Some c) (new_calls w w'))"

text \<open>The calls that go to the cloud provider's library, as opposed to files and database.\<close>

fun is_cloud_call :: "ext_call \<Rightarrow> bool" where
  "is_cloud_call (Boto3_Session p) = True"
| "is_cloud_call (Client s v r) = True"
| "is_cloud_call (Upload_file c f b k) = True"
| "is_cloud_call (Download_file c b k f) = True"
| "is_cloud_call (Copy_object c b k s) = True"
| "is_cloud_call (Delete_object c b k) = True"
| "is_cloud_call (Get_paginator c n) = True"
| "is_cloud_call (Paginate c b p) = True"
| "is_cloud_call _ = False"

text \<open>A manager that differs from \<open>m\<close> in the three stored credentials only.\<close>

definition with_credentials ::
  "string option \<Rightarrow> string option \<Rightarrow> string option \<Rightarrow> AWSCloudManager \<Rightarrow> AWSCloudManager" where
  "with_credentials a s t m = m\<lparr>access_key_id := a, secret_key_id := s, session_token := t\<rparr>"

text \<open>The method an operation names: the attribute looked up on the concrete manager.\<close>

fun operation_name :: "operation \<Rightarrow> string" where
  "operation_name (Call_upload_object f b k) = ''upload_object''"
| "operation_name (Call_download_object b k f) = ''download_object''"
| "operation_name (Call_move_object b k dk d) = ''move_object''"
| "operation_name (Call_transfer_object b k db dk d) = ''transfer_object''"
| "operation_name (Call_delete_object b k) = ''delete_object''"
| "operation_name (Call_list_dir b p) = ''list_dir''"

text \<open>
  A message names the valid providers when the value of every member of the
  enumeration occurs in it.
\<close>

fun is_prefix :: "string \<Rightarrow> string \<Rightarrow> bool" where
  "is_prefix [] ys = True"
| "is_prefix (x # xs) [] = False"
| "is_prefix (x # xs) (y # ys) = (x = y \<and> is_prefix xs ys)"

fun contains :: "string \<Rightarrow> string \<Rightarrow> bool" where
  "contains [] xs = is_prefix xs []"
| "contains (y # ys) xs = (is_prefix xs (y # ys) \<or> contains ys xs)"

definition names_valid_providers :: "string \<Rightarrow> bool" where
  "names_valid_providers msg =
     list_all (\<lambda>p. contains msg (CloudProvider_value p)) CloudProvider_members"

subsection \<open>Concrete worlds for the examples\<close>

definition quiet_world :: World where
  "quiet_world =
     \<lparr>objects = Map.empty, files = Map.empty, page_stream = (\<lambda>b p. ([], None)),
      faults = (\<lambda>n c. None), call_log = []\<rparr>"

definition default_client :: S3Client where
  "default_client =
     \<lparr>client_id = 1, client_profile_name = None, client_service = ''s3'',
      client_region_name = Some ''us-east-1''\<rparr>"

definition misfiled_world :: World where
  "misfiled_world =
     quiet_world\<lparr>files := [''bucket'' \<mapsto> ''local data''],
                 objects := [(''bucket'', ''k'') \<mapsto> ''remote data'']\<rparr>"

definition stored_world :: World where
  "stored_world = quiet_world\<lparr>objects := [(''src'', ''k'') \<mapsto> ''data'']\<rparr>"

definition memory_engine :: engine where
  "memory_engine = Engine ''sqlite:///:memory:''"

definition memory_db :: Database where
  "memory_db =
     \<lparr>priv_db = memory_engine, priv_db_ro = None,
      priv_session = Sessionmaker memory_engine, priv_session_ro = None\<rparr>"

definition lost_connection_world :: World where
  "lost_connection_world =
     quiet_world\<lparr>faults := (\<lambda>n c. if c = Rollback (Session memory_engine 0)
                                    then Some (OtherException ''connection lost'') else None)\<rparr>"

definition warm_manager :: AWSCloudManager where
  "warm_manager = (AWSCloudManager_init Map.empty)\<lparr>priv_s3_client := Some default_client\<rparr>"

definition warm_world :: World where
  "warm_world =
     quiet_world\<lparr>call_log := [Boto3_Session None, Client None ''s3'' (Some ''us-east-1'')]\<rparr>"

definition warm_facade :: CloudManager where
  "warm_facade = (CloudManager_init (Member AWS) Map.empty)\<lparr>priv_manager := Some warm_manager\<rparr>"

definition hello_world :: World where
  "hello_world = quiet_world\<lparr>files := [''test.txt'' \<mapsto> ''Hello, world!'']\<rparr>"

definition keyed_config :: AWSConfig where
  "keyed_config =
     [''aws_access_key_id'' \<mapsto> Some ''AKIA'', ''aws_secret_key_id'' \<mapsto> Some ''secret'',
      ''aws_session_token'' \<mapsto> Some ''token'']"

definition listing_world :: World where
  "listing_world = quiet_world\<lparr>page_stream := (\<lambda>b p.
      ([\<lparr>Contents = Some [[''Key'' \<mapsto> ''a/1''], [''Key'' \<mapsto> ''a/2'', ''ETag'' \<mapsto> ''x'']]\<rparr>,
        \<lparr>Contents = None\<rparr>,
        \<lparr>Contents = Some [[''Key'' \<mapsto> ''a/3'']]\<rparr>], None))\<rparr>"

section \<open>The client property and the log\<close>

lemma s3_client_cached:
  "priv_s3_client self = Some c \<Longrightarrow> s3_client self w = (Inr c, self, w)"
  by (simp add: s3_client_def)

lemma s3_client_Inr:
  "s3_client self w = (Inr c, self1, w1) \<Longrightarrow>
     priv_s3_client self1 = Some c \<and> self1 = self\<lparr>priv_s3_client := Some c\<rparr> \<and>
     objects w1 = objects w \<and> files w1 = files w \<and> faults w1 = faults w \<and>
     page_stream w1 = page_stream w \<and>
     (\<exists>cs. call_log w1 = call_log w @ cs \<and> filter (\<lambda>c. \<not> is_construction c) cs = [])"
  by (auto simp: s3_client_def sdk_Session_def sdk_client_def invoke_def
           split: option.splits prod.splits sum.splits)

lemma s3_client_Inl:
  "s3_client self w = (Inl e, self1, w1) \<Longrightarrow>
     priv_s3_client self1 = None \<and> self1 = self \<and>
     objects w1 = objects w \<and> files w1 = files w \<and> faults w1 = faults w \<and>
     page_stream w1 = page_stream w \<and>
     (\<exists>cs. call_log w1 = call_log w @ cs \<and> filter (\<lambda>c. \<not> is_construction c) cs = [])"
  by (auto simp: s3_client_def sdk_Session_def sdk_client_def invoke_def
           split: option.splits prod.splits sum.splits)

lemma upload_requests:
  "AWSCloudManager_upload_object self f b k w = (r, self1, w1) \<Longrightarrow>
   (case priv_s3_client self1 of
      None \<Rightarrow> r \<noteq> Inr () \<and> requests w w1 = []
    | Some c \<Rightarrow> requests w w1 = [Upload_file c f b k] \<and> (\<exists>cs. call_log w1 = call_log w @ cs))"
  by (auto simp: AWSCloudManager_upload_object_def sdk_upload_file_def invoke_def
                 requests_def new_calls_def
           split: prod.splits sum.splits option.splits dest!: s3_client_Inr s3_client_Inl)

lemma delete_requests_cached:
  "priv_s3_client self = Some c \<Longrightarrow>
   AWSCloudManager_delete_object self b k w = (r, self1, w1) \<Longrightarrow>
   self1 = self \<and> call_log w1 = call_log w @ [Delete_object c b k]"
  by (auto simp: AWSCloudManager_delete_object_def sdk_delete_object_def invoke_def
                 s3_client_cached
           split: prod.splits sum.splits option.splits)

section \<open>move\_object\<close>

text \<open>
  C1, as stated, fails where the upload raises: \<open>delete_object\<close> is the statement
  after \<open>upload_object\<close>, so it is not called although \<open>d\<close> is true. That is the usual
  case, since the bucket name is taken as the path of a local file: with no file of
  that name \<open>upload_file\<close> raises \<open>FileNotFoundError\<close>, and the calls made are the two
  that build the client and the upload, with no deletion.
\<close>

theorem move_object_failed_upload_counterexample:
  "AWSCloudManager_move_object (AWSCloudManager_init Map.empty)
     ''test-bucket'' ''a.txt'' ''b.txt'' True quiet_world =
     (Inl (FileNotFoundError ''test-bucket''),
      (AWSCloudManager_init Map.empty)\<lparr>priv_s3_client := Some default_client\<rparr>,
      quiet_world\<lparr>call_log :=
        [Boto3_Session None, Client None ''s3'' (Some ''us-east-1''),
         Upload_file default_client ''test-bucket'' ''a.txt'' ''b.txt'']\<rparr>)
   \<and> Delete_object default_client ''test-bucket'' ''a.txt'' \<notin>
       set (call_log (snd (snd (AWSCloudManager_move_object (AWSCloudManager_init Map.empty)
                                  ''test-bucket'' ''a.txt'' ''b.txt'' True quiet_world))))"
  by (simp add: AWSCloudManager_move_object_def AWSCloudManager_upload_object_def
        s3_client_def AWSCloudManager_init_def dict_get_def sdk_Session_def sdk_client_def
        sdk_upload_file_def invoke_def quiet_world_def default_client_def)

text \<open>
  C1, amended. For every bucket name \<open>b\<close>, object key \<open>k\<close>, destination key \<open>dk\<close> and
  flag \<open>d\<close>, \<open>move_object(b, k, dk, d)\<close> calls \<open>upload_object\<close> with \<open>(b, k, dk)\<close> as its
  \<open>(file_path, bucket_name, object_key)\<close>; if that raises, the exception propagates and
  nothing is deleted; if it returns, \<open>delete_object(b, k)\<close> is called exactly when \<open>d\<close>
  is true. On the client \<open>c\<close> the manager ends with, the requests the call makes are
  therefore \<open>upload_file(Filename=b, Bucket=k, Key=dk)\<close>, followed by
  \<open>delete_object(Bucket=b, Key=k)\<close> exactly when \<open>d\<close> is true and the upload returned:
  the bucket name is used as a local file path, and no copy is ever requested. (When
  no client could be built, the manager ends without one and no request is made.)
\<close>

theorem move_object_uploads_then_deletes:
  "AWSCloudManager_move_object self b k dk d w =
     (case AWSCloudManager_upload_object self b k dk w of
        (Inl e, self1, w1) \<Rightarrow> (Inl e, self1, w1)
      | (Inr u, self1, w1) \<Rightarrow>
          (if d then AWSCloudManager_delete_object self1 b k w1 else (Inr (), self1, w1)))
   \<and> requests w (snd (snd (AWSCloudManager_move_object self b k dk d w))) =
     (case priv_s3_client (fst (snd (AWSCloudManager_move_object self b k dk d w))) of
        None \<Rightarrow> []
      | Some c \<Rightarrow>
          Upload_file c b k dk #
            (if d \<and> fst (AWSCloudManager_upload_object self b k dk w) = Inr ()
             then [Delete_object c b k] else []))"
proof
  show "AWSCloudManager_move_object self b k dk d w =
     (case AWSCloudManager_upload_object self b k dk w of
        (Inl e, self1, w1) \<Rightarrow> (Inl e, self1, w1)
      | (Inr u, self1, w1) \<Rightarrow>
          (if d then AWSCloudManager_delete_object self1 b k w1 else (Inr (), self1, w1)))"
    by (simp add: AWSCloudManager_move_object_def)
next
  obtain ru self1 w1 where up: "AWSCloudManager_upload_object self b k dk w = (ru, self1, w1)"
    by (cases "AWSCloudManager_upload_object self b k dk w") auto
  note ur = upload_requests [OF up]
  show "requests w (snd (snd (AWSCloudManager_move_object self b k dk d w))) =
     (case priv_s3_client (fst (snd (AWSCloudManager_move_object self b k dk d w))) of
        None \<Rightarrow> []
      | Some c \<Rightarrow>
          Upload_file c b k dk #
            (if d \<and> fst (AWSCloudManager_upload_object self b k dk w) = Inr ()
             then [Delete_object c b k] else []))"
  proof (cases ru)
    case (Inl e)
    with up ur show ?thesis
      by (auto simp: AWSCloudManager_move_object_def split: option.splits)
  next
    case (Inr u)
    with ur obtain c cs where c: "priv_s3_client self1 = Some c"
      and rq: "requests w w1 = [Upload_file c b k dk]" and lg: "call_log w1 = call_log w @ cs"
      by (cases "priv_s3_client self1") auto
    show ?thesis
    proof (cases d)
      case False
      with up Inr c rq show ?thesis by (simp add: AWSCloudManager_move_object_def)
    next
      case True
      obtain rd self2 w2 where del: "AWSCloudManager_delete_object self1 b k w1 = (rd, self2, w2)"
        by (cases "AWSCloudManager_delete_object self1 b k w1") auto
      from delete_requests_cached [OF c del]
      have "self2 = self1" and "call_log w2 = call_log w1 @ [Delete_object c b k]" by auto
      with rq lg have "requests w w2 = [Upload_file c b k dk, Delete_object c b k]"
        by (simp add: requests_def new_calls_def)
      with up Inr c True del \<open>self2 = self1\<close> show ?thesis
        by (simp add: AWSCloudManager_move_object_def)
    qed
  qed
qed

text \<open>
  In a world without a local file named like the bucket the upload fails and nothing is
  deleted; with such a file, its content lands under the bucket named by the source key
  and the source object is deleted.
\<close>

theorem move_object_uploads_then_deletes_witness:
  "requests quiet_world
     (snd (snd (AWSCloudManager_move_object (AWSCloudManager_init Map.empty)
                  ''bucket'' ''k'' ''dk'' True quiet_world)))
     = [Upload_file default_client ''bucket'' ''k'' ''dk'']
   \<and> fst (AWSCloudManager_move_object (AWSCloudManager_init Map.empty)
            ''bucket'' ''k'' ''dk'' True quiet_world) = Inl (FileNotFoundError ''bucket'')
   \<and> requests misfiled_world
       (snd (snd (AWSCloudManager_move_object (AWSCloudManager_init Map.empty)
                    ''bucket'' ''k'' ''dk'' True misfiled_world)))
     = [Upload_file default_client ''bucket'' ''k'' ''dk'',
        Delete_object default_client ''bucket'' ''k'']
   \<and> objects (snd (snd (AWSCloudManager_move_object (AWSCloudManager_init Map.empty)
                          ''bucket'' ''k'' ''dk'' True misfiled_world))) (''k'', ''dk'')
     = Some ''local data''"
  using move_object_uploads_then_deletes
          [of "AWSCloudManager_init Map.empty" "''bucket''" "''k''" "''dk''" True quiet_world]
        move_object_uploads_then_deletes
          [of "AWSCloudManager_init Map.empty" "''bucket''" "''k''" "''dk''" True misfiled_world]
  by (simp add: AWSCloudManager_move_object_def AWSCloudManager_upload_object_def
        AWSCloudManager_delete_object_def s3_client_def AWSCloudManager_init_def dict_get_def
        sdk_Session_def sdk_client_def sdk_upload_file_def sdk_delete_object_def
        invoke_def quiet_world_def misfiled_world_def default_client_def)

section \<open>list\_dir\<close>

lemma yield_keys_all:
  "\<forall>obj \<in> set objs. obj ''Key'' \<noteq> None \<Longrightarrow>
     yield_keys objs = (List.map_filter (\<lambda>obj. obj ''Key'') objs, None)"
  by (induction objs) (auto split: option.splits)

lemma iterate_pages_concat:
  "\<forall>p \<in> set pages. \<forall>objs. Contents p = Some objs \<longrightarrow> (\<forall>obj \<in> set objs. obj ''Key'' \<noteq> None) \<Longrightarrow>
     iterate_pages pages ending = (concat (map page_keys pages), ending)"
proof (induction pages)
  case Nil
  then show ?case by simp
next
  case (Cons p ps)
  then have ih: "iterate_pages ps ending = (concat (map page_keys ps), ending)" by simp
  show ?case
  proof (cases "Contents p")
    case None
    with ih show ?thesis by (simp add: page_keys_def [of p])
  next
    case (Some objs)
    with Cons.prems have "\<forall>obj \<in> set objs. obj ''Key'' \<noteq> None" by simp
    from yield_keys_all [OF this] Some ih show ?thesis by (simp add: page_keys_def [of p])
  qed
qed

text \<open>
  C10. For every bucket and prefix: once the client and the paginator are obtained and
  \<open>paginate\<close> has returned its page iterator, iterating \<open>list_dir\<close> yields exactly the
  concatenation, in page order, of the keys listed under "Contents" of each page (every
  listed object carrying its "Key"), and ends as the page iterator ends. A page without
  "Contents" contributes no key and raises nothing. The pages are those the world
  holds for this bucket and prefix.
\<close>

theorem list_dir_yields_page_keys:
  assumes "s3_client self w = (Inr c, self1, w1)"
    and "sdk_get_paginator c ''list_objects_v2'' w1 = (Inr (), w2)"
    and "sdk_paginate c b px w2 = (Inr (pages, ending), w3)"
    and "\<forall>p \<in> set pages. \<forall>objs. Contents p = Some objs \<longrightarrow> (\<forall>obj \<in> set objs. obj ''Key'' \<noteq> None)"
  shows "exhaust (AWSCloudManager_list_dir self b px) self w =
           ((concat (map page_keys pages), ending), self1, w3)
         \<and> pages = fst (page_stream w b px) \<and> ending = snd (page_stream w b px)"
proof -
  from assms(1) have "page_stream w1 = page_stream w" by (auto dest: s3_client_Inr)
  moreover from assms(2) have "page_stream w2 = page_stream w1"
    by (auto simp: sdk_get_paginator_def invoke_def split: option.splits)
  moreover from assms(3) have "(pages, ending) = page_stream w2 b px"
    by (auto simp: sdk_paginate_def invoke_def split: option.splits)
  ultimately have "(pages, ending) = page_stream w b px" by simp
  then have "pages = fst (page_stream w b px) \<and> ending = snd (page_stream w b px)"
    by (metis fst_conv snd_conv)
  moreover have "exhaust (AWSCloudManager_list_dir self b px) self w =
           ((concat (map page_keys pages), ending), self1, w3)"
    using assms(1-3) iterate_pages_concat [OF assms(4)]
    by (simp add: AWSCloudManager_list_dir_def)
  ultimately show ?thesis by simp
qed

theorem list_dir_yields_page_keys_witness:
  "fst (exhaust (AWSCloudManager_list_dir (AWSCloudManager_init Map.empty) ''bkt'' ''a/'')
          (AWSCloudManager_init Map.empty) listing_world)
     = ([''a/1'', ''a/2'', ''a/3''], None)"
proof -
  let ?m = "AWSCloudManager_init Map.empty"
  let ?w1 = "listing_world\<lparr>call_log :=
               [Boto3_Session None, Client None ''s3'' (Some ''us-east-1'')]\<rparr>"
  let ?w2 = "listing_world\<lparr>call_log :=
               [Boto3_Session None, Client None ''s3'' (Some ''us-east-1''),
                Get_paginator default_client ''list_objects_v2'']\<rparr>"
  let ?w3 = "listing_world\<lparr>call_log :=
               [Boto3_Session None, Client None ''s3'' (Some ''us-east-1''),
                Get_paginator default_client ''list_objects_v2'',
                Paginate default_client ''bkt'' ''a/'']\<rparr>"
  let ?pages =
    "[\<lparr>Contents = Some [[''Key'' \<mapsto> ''a/1''], [''Key'' \<mapsto> ''a/2'', ''ETag'' \<mapsto> ''x'']]\<rparr>,
      \<lparr>Contents = None\<rparr>,
      \<lparr>Contents = Some [[''Key'' \<mapsto> ''a/3'']]\<rparr>]"
  have h1: "s3_client ?m listing_world =
              (Inr default_client, ?m\<lparr>priv_s3_client := Some default_client\<rparr>, ?w1)"
    by (simp add: s3_client_def AWSCloudManager_init_def dict_get_def sdk_Session_def
          sdk_client_def invoke_def listing_world_def quiet_world_def default_client_def)
  have h2: "sdk_get_paginator default_client ''list_objects_v2'' ?w1 = (Inr (), ?w2)"
    by (simp add: sdk_get_paginator_def invoke_def listing_world_def quiet_world_def)
  have h3: "sdk_paginate default_client ''bkt'' ''a/'' ?w2 = (Inr (?pages, None), ?w3)"
    by (simp add: sdk_paginate_def invoke_def listing_world_def quiet_world_def)
  have h4: "\<forall>p \<in> set ?pages. \<forall>objs. Contents p = Some objs \<longrightarrow>
              (\<forall>obj \<in> set objs. obj ''Key'' \<noteq> None)"
    by simp
  from list_dir_yields_page_keys [OF h1 h2 h3 h4] show ?thesis
    by (simp add: page_keys_def)
qed

section \<open>transfer\_object\<close>

lemma parse_copy_source_bucket_key:
  "CHR ''/'' \<notin> set b \<Longrightarrow> parse_copy_source (b @ ''/'' @ k) = Some (b, k)"
  by (induction b) (auto simp: parse_copy_source_def)

lemma delete_cached:
  "priv_s3_client self = Some c \<Longrightarrow>
   AWSCloudManager_delete_object self b k w = (Inr (), self1, w1) \<Longrightarrow>
   self1 = self \<and> call_log w1 = call_log w @ [Delete_object c b k] \<and>
   objects w1 = (objects w)((b, k) := None)"
  by (auto simp: AWSCloudManager_delete_object_def sdk_delete_object_def invoke_def
                 s3_client_cached
           split: prod.splits sum.splits option.splits)

lemma transfer_returns:
  assumes "CHR ''/'' \<notin> set b1" and "(b1, k) \<noteq> (b2, k2)"
      and "AWSCloudManager_transfer_object self b1 k b2 k2 d w = (Inr (), self', w')"
  shows "\<exists>c data. priv_s3_client self' = Some c \<and> objects w (b1, k) = Some data \<and>
            objects w' (b2, k2) = Some data \<and>
            objects w' (b1, k) = (if d then None else Some data) \<and>
            requests w w' =
              Copy_object c b2 k2 (b1 @ ''/'' @ k) # (if d then [Delete_object c b1 k] else [])"
proof -
  from assms(3) obtain c self1 w1 where cl: "s3_client self w = (Inr c, self1, w1)"
    by (auto simp: AWSCloudManager_transfer_object_def split: prod.splits sum.splits)
  from s3_client_Inr [OF cl] obtain cs where
    c: "priv_s3_client self1 = Some c" and o1: "objects w1 = objects w"
    and l1: "call_log w1 = call_log w @ cs" and f1: "filter (\<lambda>c. \<not> is_construction c) cs = []"
    by auto
  from assms(3) cl obtain w2 where
    cp: "sdk_copy_object c b2 k2 (b1 @ ''/'' @ k) w1 = (Inr (), w2)"
    and rest: "(if d then AWSCloudManager_delete_object self1 b1 k w2 else (Inr (), self1, w2))
                 = (Inr (), self', w')"
    by (auto simp: AWSCloudManager_transfer_object_def split: prod.splits sum.splits)
  from cp parse_copy_source_bucket_key [OF assms(1), of k] o1 obtain data where
    src: "objects w (b1, k) = Some data"
    and o2: "objects w2 = (objects w)((b2, k2) \<mapsto> data)"
    and l2: "call_log w2 = call_log w1 @ [Copy_object c b2 k2 (b1 @ ''/'' @ k)]"
    by (auto simp: sdk_copy_object_def invoke_def split: option.splits)
  show ?thesis
  proof (cases d)
    case False
    with rest have "self' = self1" "w' = w2" by auto
    with False c src o2 l1 l2 f1 assms(2) show ?thesis
      by (auto simp: requests_def new_calls_def)
  next
    case True
    with rest have del: "AWSCloudManager_delete_object self1 b1 k w2 = (Inr (), self', w')"
      by simp
    from delete_cached [OF c del] have "self' = self1"
      and l3: "call_log w' = call_log w2 @ [Delete_object c b1 k]"
      and o3: "objects w' = (objects w2)((b1, k) := None)" by auto
    with True c src o2 l1 l2 f1 assms(2) show ?thesis
      by (auto simp: requests_def new_calls_def)
  qed
qed

lemma transfer_progress:
  assumes "CHR ''/'' \<notin> set b1" and "\<forall>n call. faults w n call = None"
      and "objects w (b1, k) \<noteq> None"
  shows "fst (AWSCloudManager_transfer_object self b1 k b2 k2 d w) = Inr ()"
  using assms parse_copy_source_bucket_key [OF assms(1), of k]
  by (auto simp: AWSCloudManager_transfer_object_def AWSCloudManager_delete_object_def
        s3_client_def sdk_Session_def sdk_client_def sdk_copy_object_def sdk_delete_object_def
        invoke_def
      split: option.splits prod.splits sum.splits)

text \<open>
  C7, as stated, fails where source and destination are the same address: the copy
  of the object onto itself is followed by the deletion of the source, which is the
  destination, so after \<open>transfer_object(b, k, b, k, True)\<close> has returned the object is
  absent at the destination. (A provider that refuses to copy an object onto itself
  raises instead, and then the object is still present at the source: the claim fails
  there as well.)
\<close>

theorem transfer_object_same_address_counterexample:
  "objects stored_world (''src'', ''k'') = Some ''data''
   \<and> fst (AWSCloudManager_transfer_object (AWSCloudManager_init Map.empty)
            ''src'' ''k'' ''src'' ''k'' True stored_world) = Inr ()
   \<and> objects (snd (snd (AWSCloudManager_transfer_object (AWSCloudManager_init Map.empty)
                          ''src'' ''k'' ''src'' ''k'' True stored_world))) (''src'', ''k'')
       = None"
  by (simp add: AWSCloudManager_transfer_object_def AWSCloudManager_delete_object_def
        s3_client_def sdk_Session_def sdk_client_def sdk_copy_object_def sdk_delete_object_def
        invoke_def AWSCloudManager_init_def dict_get_def stored_world_def quiet_world_def
        parse_copy_source_def)

text \<open>
  C7, amended. For all bucket names \<open>b1\<close>, \<open>b2\<close> (a bucket name has no slash) and keys
  \<open>k\<close>, \<open>k2\<close> with \<open>(b1, k) \<noteq> (b2, k2)\<close>: when \<open>transfer_object(b1, k, b2, k2,
  deleteSource)\<close> returns, it has requested a server-side copy with \<open>CopySource\<close>
  "b1/k" to \<open>(b2, k2)\<close> and then, exactly when \<open>deleteSource\<close> is true, the deletion of
  \<open>(b1, k)\<close>; the object that was at \<open>(b1, k)\<close> is at \<open>(b2, k2)\<close>, and at \<open>(b1, k)\<close> it is
  absent with \<open>deleteSource\<close> and still present without. In a world where no call
  fails and the source object exists, the call does return.
\<close>

theorem transfer_object_copies_then_deletes:
  assumes "CHR ''/'' \<notin> set b1" and "(b1, k) \<noteq> (b2, k2)"
  shows "(fst (AWSCloudManager_transfer_object self b1 k b2 k2 d w) = Inr () \<longrightarrow>
            (\<exists>c data.
               priv_s3_client (fst (snd (AWSCloudManager_transfer_object self b1 k b2 k2 d w)))
                 = Some c \<and>
               objects w (b1, k) = Some data \<and>
               objects (snd (snd (AWSCloudManager_transfer_object self b1 k b2 k2 d w))) (b2, k2)
                 = Some data \<and>
               objects (snd (snd (AWSCloudManager_transfer_object self b1 k b2 k2 d w))) (b1, k)
                 = (if d then None else Some data) \<and>
               requests w (snd (snd (AWSCloudManager_transfer_object self b1 k b2 k2 d w))) =
                 Copy_object c b2 k2 (b1 @ ''/'' @ k) #
                   (if d then [Delete_object c b1 k] else [])))
       \<and> ((\<forall>n call. faults w n call = None) \<and> objects w (b1, k) \<noteq> None \<longrightarrow>
            fst (AWSCloudManager_transfer_object self b1 k b2 k2 d w) = Inr ())"
proof (intro conjI impI)
  assume ret: "fst (AWSCloudManager_transfer_object self b1 k b2 k2 d w) = Inr ()"
  obtain r self' w' where
    run: "AWSCloudManager_transfer_object self b1 k b2 k2 d w = (r, self', w')"
    by (cases "AWSCloudManager_transfer_object self b1 k b2 k2 d w") auto
  with ret have "AWSCloudManager_transfer_object self b1 k b2 k2 d w = (Inr (), self', w')"
    by simp
  from transfer_returns [OF assms this] run
  show "\<exists>c data.
          priv_s3_client (fst (snd (AWSCloudManager_transfer_object self b1 k b2 k2 d w)))
            = Some c \<and>
          objects w (b1, k) = Some data \<and>
          objects (snd (snd (AWSCloudManager_transfer_object self b1 k b2 k2 d w))) (b2, k2)
            = Some data \<and>
          objects (snd (snd (AWSCloudManager_transfer_object self b1 k b2 k2 d w))) (b1, k)
            = (if d then None else Some data) \<and>
          requests w (snd (snd (AWSCloudManager_transfer_object self b1 k b2 k2 d w))) =
            Copy_object c b2 k2 (b1 @ ''/'' @ k) #
              (if d then [Delete_object c b1 k] else [])"
    by simp
next
  assume "(\<forall>n call. faults w n call = None) \<and> objects w (b1, k) \<noteq> None"
  then show "fst (AWSCloudManager_transfer_object self b1 k b2 k2 d w) = Inr ()"
    using transfer_progress [OF assms(1)] by blast
qed

theorem transfer_object_copies_then_deletes_witness:
  "fst (AWSCloudManager_transfer_object (AWSCloudManager_init Map.empty)
          ''src'' ''k'' ''dst'' ''k2'' True stored_world) = Inr ()
   \<and> objects (snd (snd (AWSCloudManager_transfer_object (AWSCloudManager_init Map.empty)
                          ''src'' ''k'' ''dst'' ''k2'' True stored_world))) (''dst'', ''k2'')
       = Some ''data''
   \<and> objects (snd (snd (AWSCloudManager_transfer_object (AWSCloudManager_init Map.empty)
                          ''src'' ''k'' ''dst'' ''k2'' True stored_world))) (''src'', ''k'')
       = None
   \<and> objects (snd (snd (AWSCloudManager_transfer_object (AWSCloudManager_init Map.empty)
                          ''src'' ''k'' ''dst'' ''k2'' False stored_world))) (''src'', ''k'')
       = Some ''data''"
proof -
  have slash: "CHR ''/'' \<notin> set ''src''" by simp
  have apart: "(''src'', ''k'') \<noteq> (''dst'', ''k2'')" by simp
  have calm: "(\<forall>n call. faults stored_world n call = None)
                \<and> objects stored_world (''src'', ''k'') \<noteq> None"
    by (simp add: stored_world_def quiet_world_def)
  have src: "objects stored_world (''src'', ''k'') = Some ''data''"
    by (simp add: stored_world_def quiet_world_def)
  from transfer_object_copies_then_deletes
         [OF slash apart, of "AWSCloudManager_init Map.empty" True stored_world]
       transfer_object_copies_then_deletes
         [OF slash apart, of "AWSCloudManager_init Map.empty" False stored_world]
       calm src
  show ?thesis by auto
qed

section \<open>Database.session\<close>

lemma Database_init_no_readonly:
  assumes "Database_init write_url readonly_url w0 = (Inr db, w1)"
      and "readonly_url = None \<or> readonly_url = Some []"
  shows "priv_session_ro db = None"
  using assms
  by (auto simp: Database_init_def split: prod.splits sum.splits)

text \<open>
  C2. For every \<open>Database\<close> constructed with no read-only URL (\<open>None\<close>, or the empty
  string, which the constructor treats alike), entering \<open>session(readonly=True)\<close>
  raises the \<open>RuntimeError\<close> "Readonly connection not configured ..." and leaves the
  world exactly as it was: no session is made on either engine, nothing is logged
  against the write engine, and the body of the scope never runs (the result is the
  same for every body).
\<close>

theorem readonly_session_requires_readonly_url:
  assumes "Database_init write_url readonly_url w0 = (Inr db, w1)"
      and "readonly_url = None \<or> readonly_url = Some []"
  shows "priv_session_ro db = None \<and>
         Database_session db True body w = (Inl (RuntimeError readonly_not_configured), w)"
proof -
  from assms have "priv_session_ro db = None" by (rule Database_init_no_readonly)
  then show ?thesis by (simp add: Database_session_def)
qed

theorem readonly_session_requires_readonly_url_witness:
  "Database_init ''sqlite:///:memory:'' None quiet_world =
     (Inr memory_db, quiet_world\<lparr>call_log := [Create_engine ''sqlite:///:memory:'']\<rparr>)
   \<and> Database_session memory_db True (\<lambda>session. sql_execute session update_stmt)
        (quiet_world\<lparr>call_log := [Create_engine ''sqlite:///:memory:'']\<rparr>)
     = (Inl (RuntimeError readonly_not_configured),
        quiet_world\<lparr>call_log := [Create_engine ''sqlite:///:memory:'']\<rparr>)"
proof -
  have init: "Database_init ''sqlite:///:memory:'' None quiet_world =
     (Inr memory_db, quiet_world\<lparr>call_log := [Create_engine ''sqlite:///:memory:'']\<rparr>)"
    by (simp add: Database_init_def sql_create_engine_def invoke_def quiet_world_def
          memory_db_def memory_engine_def)
  have none: "(None :: string option) = None \<or> (None :: string option) = Some []" by simp
  from readonly_session_requires_readonly_url [OF init none] init show ?thesis by simp
qed

lemma session_scope_exits:
  assumes body: "body s w1 = (rb, w2)"
      and run: "session_scope s body w1 = (r, w')"
  shows "(\<exists>pre. new_calls w2 w' = pre @ [Close s] \<and> Close s \<notin> set pre)
       \<and> (rb = Inr () \<longrightarrow>
            (\<exists>post. new_calls w2 w' = Commit s # post) \<and>
            (faults w2 (length (call_log w2)) (Commit s) = None \<longrightarrow>
               new_calls w2 w' = [Commit s, Close s] \<and>
               (faults w2 (Suc (length (call_log w2))) (Close s) = None \<longrightarrow> r = Inr ())))
       \<and> (\<forall>e. rb = Inl e \<and> is_Exception e \<longrightarrow>
            new_calls w2 w' = [Rollback s, Close s] \<and>
            (faults w2 (length (call_log w2)) (Rollback s) = None \<and>
             faults w2 (Suc (length (call_log w2))) (Close s) = None \<longrightarrow> r = Inl e))
       \<and> (\<forall>e. rb = Inl e \<and> \<not> is_Exception e \<longrightarrow>
            new_calls w2 w' = [Close s] \<and>
            (faults w2 (length (call_log w2)) (Close s) = None \<longrightarrow> r = Inl e))
       \<and> (\<forall>e. rb = Inl e \<longrightarrow> r \<noteq> Inr ())"
  using body run
  by (auto simp: session_scope_def try_block_def except_block_def finally_block_def
        sql_commit_def sql_rollback_def sql_close_def sql_method_def invoke_def new_calls_def
      split: sum.splits prod.splits option.splits if_splits)

lemma Database_session_scope:
  assumes "(if readonly then priv_session_ro db else Some (priv_session db)) = Some maker"
      and "sql_new_session maker w = (Inr s, w1)"
  shows "Database_session db readonly body w = session_scope s body w1"
  using assms by (cases readonly) (auto simp: Database_session_def)

text \<open>
  C3, as stated, fails for an exception that is not an instance of \<open>Exception\<close>: the
  handler is \<open>except Exception:\<close>, so a \<open>KeyboardInterrupt\<close> raised by the body leaves
  the scope without \<open>rollback()\<close> being called; the only calls are the one that makes
  the session and \<open>close()\<close>. It also fails where \<open>rollback()\<close> itself raises (a failure
  the claim names): the exception that leaves the scope is then the one of
  \<open>rollback()\<close>, not the original one.
\<close>

theorem session_interrupt_counterexample:
  "Database_session memory_db False (\<lambda>session w. (Inl KeyboardInterrupt, w)) quiet_world =
     (Inl KeyboardInterrupt,
      quiet_world\<lparr>call_log := [New_session memory_engine, Close (Session memory_engine 0)]\<rparr>)
   \<and> Rollback (Session memory_engine 0) \<notin>
       set (call_log (snd (Database_session memory_db False
                             (\<lambda>session w. (Inl KeyboardInterrupt, w)) quiet_world)))
   \<and> fst (Database_session memory_db False (\<lambda>session w. (Inl (ValueError ''boom''), w))
            lost_connection_world) = Inl (OtherException ''connection lost'')"
  by (simp add: Database_session_def session_scope_def try_block_def except_block_def
        finally_block_def sql_rollback_def sql_close_def sql_method_def invoke_def
        memory_db_def memory_engine_def quiet_world_def lost_connection_world_def)

text \<open>
  C3, amended. For every session scope obtained from \<open>Database.session\<close> (a session \<open>s\<close>
  was made, and the body left the world \<open>w2\<close>), with the calls the scope makes after the
  body:
  \<^item> on every exit path \<open>close()\<close> is called, once, as the last call;
  \<^item> if the body completes without raising, \<open>commit()\<close> is called first; when it
    returns, nothing but \<open>close()\<close> follows, and when that returns the scope returns;
  \<^item> if the body raises an instance of \<open>Exception\<close>, \<open>rollback()\<close> and then \<open>close()\<close>
    are called, and when both return the original exception is re-raised unchanged;
  \<^item> if the body raises an exception outside \<open>Exception\<close> (\<open>KeyboardInterrupt\<close>,
    \<open>SystemExit\<close>), \<open>close()\<close> alone is called, and when it returns the original
    exception is re-raised unchanged;
  \<^item> an exception of the body is never swallowed: the scope raises.
\<close>

theorem session_commits_or_rolls_back_and_closes:
  assumes "(if readonly then priv_session_ro db else Some (priv_session db)) = Some maker"
      and "sql_new_session maker w = (Inr s, w1)"
      and "body s w1 = (rb, w2)"
  shows "(\<exists>pre. new_calls w2 (snd (Database_session db readonly body w)) = pre @ [Close s]
                \<and> Close s \<notin> set pre)
       \<and> (rb = Inr () \<longrightarrow>
            (\<exists>post. new_calls w2 (snd (Database_session db readonly body w)) = Commit s # post) \<and>
            (faults w2 (length (call_log w2)) (Commit s) = None \<longrightarrow>
               new_calls w2 (snd (Database_session db readonly body w)) = [Commit s, Close s] \<and>
               (faults w2 (Suc (length (call_log w2))) (Close s) = None \<longrightarrow>
                  fst (Database_session db readonly body w) = Inr ())))
       \<and> (\<forall>e. rb = Inl e \<and> is_Exception e \<longrightarrow>
            new_calls w2 (snd (Database_session db readonly body w)) = [Rollback s, Close s] \<and>
            (faults w2 (length (call_log w2)) (Rollback s) = None \<and>
             faults w2 (Suc (length (call_log w2))) (Close s) = None \<longrightarrow>
               fst (Database_session db readonly body w) = Inl e))
       \<and> (\<forall>e. rb = Inl e \<and> \<not> is_Exception e \<longrightarrow>
            new_calls w2 (snd (Database_session db readonly body w)) = [Close s] \<and>
            (faults w2 (length (call_log w2)) (Close s) = None \<longrightarrow>
               fst (Database_session db readonly body w) = Inl e))
       \<and> (\<forall>e. rb = Inl e \<longrightarrow> fst (Database_session db readonly body w) \<noteq> Inr ())"
proof -
  obtain r w' where run: "session_scope s body w1 = (r, w')"
    by (cases "session_scope s body w1") auto
  with Database_session_scope [OF assms(1,2), of body]
  have r: "fst (Database_session db readonly body w) = r"
    and w': "snd (Database_session db readonly body w) = w'" by simp_all
  show ?thesis unfolding r w' by (rule session_scope_exits [OF assms(3) run])
qed

theorem session_commits_or_rolls_back_and_closes_witness:
  "Database_session memory_db False (\<lambda>session w. (Inr (), w)) quiet_world =
     (Inr (), quiet_world\<lparr>call_log :=
        [New_session memory_engine, Commit (Session memory_engine 0),
         Close (Session memory_engine 0)]\<rparr>)
   \<and> Database_session memory_db False (\<lambda>session w. (Inl (ValueError ''boom''), w)) quiet_world =
     (Inl (ValueError ''boom''), quiet_world\<lparr>call_log :=
        [New_session memory_engine, Rollback (Session memory_engine 0),
         Close (Session memory_engine 0)]\<rparr>)
   \<and> fst (Database_session memory_db False (\<lambda>session w. (Inl SystemExit, w)) quiet_world) =
       Inl SystemExit"
proof -
  let ?s = "Session memory_engine 0"
  let ?w1 = "quiet_world\<lparr>call_log := [New_session memory_engine]\<rparr>"
  have maker: "(if False then priv_session_ro memory_db else Some (priv_session memory_db))
                 = Some (Sessionmaker memory_engine)"
    by (simp add: memory_db_def)
  have new: "sql_new_session (Sessionmaker memory_engine) quiet_world = (Inr ?s, ?w1)"
    by (simp add: invoke_def quiet_world_def)
  have calm: "faults ?w1 n c = None" for n c by (simp add: quiet_world_def)
  note t1 = session_commits_or_rolls_back_and_closes
              [where body = "\<lambda>session w. (Inr (), w)", OF maker new refl]
  note t2 = session_commits_or_rolls_back_and_closes
              [where body = "\<lambda>session w. (Inl (ValueError ''boom''), w)", OF maker new refl]
  note t3 = session_commits_or_rolls_back_and_closes
              [where body = "\<lambda>session w. (Inl SystemExit, w)", OF maker new refl]
  from t1 calm have 1:
    "new_calls ?w1 (snd (Database_session memory_db False (\<lambda>session w. (Inr (), w)) quiet_world))
       = [Commit ?s, Close ?s]"
    "fst (Database_session memory_db False (\<lambda>session w. (Inr (), w)) quiet_world) = Inr ()"
    by simp_all
  from t2 calm have 2:
    "new_calls ?w1 (snd (Database_session memory_db False
                           (\<lambda>session w. (Inl (ValueError ''boom''), w)) quiet_world))
       = [Rollback ?s, Close ?s]"
    "fst (Database_session memory_db False (\<lambda>session w. (Inl (ValueError ''boom''), w))
            quiet_world) = Inl (ValueError ''boom'')"
    by simp_all
  from t3 calm have 3:
    "fst (Database_session memory_db False (\<lambda>session w. (Inl SystemExit, w)) quiet_world)
       = Inl SystemExit"
    by simp
  have e1: "Database_session memory_db False (\<lambda>session w. (Inr (), w)) quiet_world =
     (Inr (), quiet_world\<lparr>call_log :=
        [New_session memory_engine, Commit ?s, Close ?s]\<rparr>)"
    by (simp add: Database_session_def session_scope_def try_block_def except_block_def
          finally_block_def sql_commit_def sql_close_def sql_method_def invoke_def
          memory_db_def quiet_world_def)
  have e2: "Database_session memory_db False (\<lambda>session w. (Inl (ValueError ''boom''), w))
              quiet_world =
     (Inl (ValueError ''boom''), quiet_world\<lparr>call_log :=
        [New_session memory_engine, Rollback ?s, Close ?s]\<rparr>)"
    by (simp add: Database_session_def session_scope_def try_block_def except_block_def
          finally_block_def sql_rollback_def sql_close_def sql_method_def invoke_def
          memory_db_def quiet_world_def)
  from 1 2 3 e1 e2 show ?thesis by simp
qed

section \<open>CloudManager: dispatch, caching and forwarding\<close>

lemma manager_Some:
  "manager self = (Some m, self1) \<Longrightarrow> self1 = self\<lparr>priv_manager := Some m\<rparr>"
  by (auto simp: manager_def Let_def
           split: option.splits provider_value.splits CloudProvider.splits)

lemma manager_cached: "priv_manager self = Some m \<Longrightarrow> manager self = (Some m, self)"
  by (simp add: manager_def)

lemma manager_fresh:
  "priv_provider self = Member AWS \<Longrightarrow> priv_manager self = None \<Longrightarrow>
     manager self = (Some (AWSCloudManager_init (priv_config self)),
                     self\<lparr>priv_manager := Some (AWSCloudManager_init (priv_config self))\<rparr>)"
  by (simp add: manager_def Let_def)

lemma manager_unsupported:
  "priv_provider self = NonMember v \<Longrightarrow> priv_manager self = None \<Longrightarrow>
     manager self = (None, self)"
  by (simp add: manager_def)

subsection \<open>A provider that is not AWS\<close>

lemma call_unsupported:
  "priv_provider self = NonMember v \<Longrightarrow> priv_manager self = None \<Longrightarrow>
   CloudManager_call operation self w =
     (Raised (AttributeError (operation_name operation)), self, w)"
  by (cases operation)
     (simp_all add: manager_unsupported CloudManager_upload_object_def
        CloudManager_download_object_def CloudManager_move_object_def
        CloudManager_transfer_object_def CloudManager_delete_object_def
        CloudManager_list_dir_def)

lemma calls_unsupported:
  "priv_provider self = NonMember v \<Longrightarrow> priv_manager self = None \<Longrightarrow>
   CloudManager_calls ops self w =
     (map (\<lambda>operation. Raised (AttributeError (operation_name operation))) ops, self, w)"
  by (induction ops) (simp_all add: call_unsupported)

text \<open>
  C4. For every \<open>CloudManager\<close> constructed with a provider value other than
  \<open>CloudProvider.AWS\<close>, whatever operations are called on it and in whatever world:
  each call raises \<open>AttributeError\<close> (the method looked up on \<open>None\<close>), not an error
  that names the provider; the manager is left as constructed, with no concrete client
  (\<open>_manager\<close> is \<open>None\<close> before and after); and the world is untouched, so no client of
  the provider's library is built either.
\<close>

theorem unsupported_provider_raises_AttributeError:
  "CloudManager_calls ops (CloudManager_init (NonMember v) config) w =
     (map (\<lambda>operation. Raised (AttributeError (operation_name operation))) ops,
      CloudManager_init (NonMember v) config, w)
   \<and> priv_manager (CloudManager_init (NonMember v) config) = None"
  using calls_unsupported [of "CloudManager_init (NonMember v) config" v ops w]
  by (simp add: CloudManager_init_def)

theorem unsupported_provider_raises_AttributeError_witness:
  "CloudManager_calls [Call_upload_object ''test.txt'' ''test-bucket'' ''test.txt'',
                       Call_list_dir ''test-bucket'' ''a/'']
     (CloudManager_init (NonMember ''azure'') Map.empty) quiet_world =
     ([Raised (AttributeError ''upload_object''), Raised (AttributeError ''list_dir'')],
      CloudManager_init (NonMember ''azure'') Map.empty, quiet_world)"
  using unsupported_provider_raises_AttributeError
          [of "[Call_upload_object ''test.txt'' ''test-bucket'' ''test.txt'',
                Call_list_dir ''test-bucket'' ''a/'']" "''azure''" Map.empty quiet_world]
  by simp

subsection \<open>Forwarding\<close>

lemma call_forwards:
  assumes "manager self = (Some m, self1)"
  shows "CloudManager_call operation self w =
           (case AWSCloudManager_call operation m w of
              (r, m1, w1) \<Rightarrow> (r, self1\<lparr>priv_manager := Some m1\<rparr>, w1))"
  using assms manager_Some [OF assms]
  by (cases operation)
     (auto simp: CloudManager_upload_object_def CloudManager_download_object_def
        CloudManager_move_object_def CloudManager_transfer_object_def
        CloudManager_delete_object_def CloudManager_list_dir_def AWSCloudManager_list_dir_def
      split: prod.splits)

lemma calls_forward:
  "priv_manager self = Some m \<Longrightarrow>
   CloudManager_calls ops self w =
     (case AWSCloudManager_calls ops m w of
        (rs, m1, w1) \<Rightarrow> (rs, self\<lparr>priv_manager := Some m1\<rparr>, w1))"
proof (induction ops arbitrary: self m w)
  case Nil
  then show ?case by simp
next
  case (Cons operation ops)
  obtain r m1 w1 where 1: "AWSCloudManager_call operation m w = (r, m1, w1)"
    by (cases "AWSCloudManager_call operation m w") auto
  with call_forwards [OF manager_cached [OF Cons.prems], of operation w]
  have 2: "CloudManager_call operation self w = (r, self\<lparr>priv_manager := Some m1\<rparr>, w1)"
    by simp
  have "priv_manager (self\<lparr>priv_manager := Some m1\<rparr>) = Some m1" by simp
  from Cons.IH [OF this, of w1] 1 2 show ?case
    by (simp split: prod.splits)
qed

text \<open>
  C6. For each of the six operations and all arguments: where \<open>m\<close> is the concrete
  client the facade's \<open>manager\<close> property returns (the cached one, or the one it builds
  and caches at this call), the call on the \<open>CloudManager\<close> has the outcome of the
  same operation with the same arguments on \<open>m\<close>, leaves the world that call leaves,
  and leaves \<open>m\<close> as that call leaves it, cached in the facade: nothing is added,
  repeated or checked in between. For the provider AWS there always is such a client.
\<close>

theorem facade_forwards_every_operation:
  "(manager self = (Some m, self1) \<longrightarrow>
      CloudManager_call operation self w =
        (case AWSCloudManager_call operation m w of
           (r, m1, w1) \<Rightarrow> (r, self1\<lparr>priv_manager := Some m1\<rparr>, w1)))
   \<and> (priv_provider self = Member AWS \<longrightarrow> (\<exists>m self1. manager self = (Some m, self1)))"
proof (intro conjI impI)
  assume "manager self = (Some m, self1)"
  then show "CloudManager_call operation self w =
        (case AWSCloudManager_call operation m w of
           (r, m1, w1) \<Rightarrow> (r, self1\<lparr>priv_manager := Some m1\<rparr>, w1))"
    by (rule call_forwards)
next
  assume "priv_provider self = Member AWS"
  then show "\<exists>m self1. manager self = (Some m, self1)"
    by (cases "priv_manager self") (auto simp: manager_fresh manager_cached)
qed

theorem facade_forwards_every_operation_witness:
  "fst (CloudManager_call (Call_upload_object ''test.txt'' ''test-bucket'' ''test.txt'')
          (CloudManager_init (Member AWS) Map.empty) hello_world)
     = fst (AWSCloudManager_call (Call_upload_object ''test.txt'' ''test-bucket'' ''test.txt'')
              (AWSCloudManager_init Map.empty) hello_world)
   \<and> snd (snd (CloudManager_call (Call_upload_object ''test.txt'' ''test-bucket'' ''test.txt'')
          (CloudManager_init (Member AWS) Map.empty) hello_world))
     = snd (snd (AWSCloudManager_call (Call_upload_object ''test.txt'' ''test-bucket'' ''test.txt'')
              (AWSCloudManager_init Map.empty) hello_world))
   \<and> fst (CloudManager_call (Call_upload_object ''test.txt'' ''test-bucket'' ''test.txt'')
          (CloudManager_init (Member AWS) Map.empty) hello_world) = Returned
   \<and> fst (manager warm_facade) \<noteq> None"
proof -
  let ?cm = "CloudManager_init (Member AWS) Map.empty"
  let ?m = "AWSCloudManager_init Map.empty"
  have aws: "priv_provider warm_facade = Member AWS"
    by (simp add: warm_facade_def CloudManager_init_def)
  from facade_forwards_every_operation
         [of warm_facade warm_manager warm_facade "Call_list_dir [] []" quiet_world] aws
  have "\<exists>m self1. manager warm_facade = (Some m, self1)" by blast
  then have cached: "fst (manager warm_facade) \<noteq> None" by auto
  have mgr: "manager ?cm = (Some ?m, ?cm\<lparr>priv_manager := Some ?m\<rparr>)"
    by (simp add: manager_def CloudManager_init_def Let_def)
  have ret: "fst (AWSCloudManager_call (Call_upload_object ''test.txt'' ''test-bucket'' ''test.txt'')
              ?m hello_world) = Returned"
    by (simp add: AWSCloudManager_upload_object_def s3_client_def AWSCloudManager_init_def
          dict_get_def sdk_Session_def sdk_client_def sdk_upload_file_def invoke_def
          hello_world_def quiet_world_def)
  from facade_forwards_every_operation
         [of ?cm ?m "?cm\<lparr>priv_manager := Some ?m\<rparr>"
             "Call_upload_object ''test.txt'' ''test-bucket'' ''test.txt''" hello_world]
       mgr ret cached
  show ?thesis by (simp split: prod.splits)
qed

subsection \<open>Caching\<close>

lemma on_client_append:
  "call_log w' = call_log w @ cs \<Longrightarrow> list_all (\<lambda>x. call_client x = Some c) cs \<Longrightarrow>
     on_client c w w'"
  by (simp add: on_client_def new_calls_def)

lemma on_client_split:
  "on_client c w w' \<Longrightarrow>
     \<exists>cs. call_log w' = call_log w @ cs \<and> list_all (\<lambda>x. call_client x = Some c) cs"
  unfolding on_client_def new_calls_def by (metis append_take_drop_id)

lemma on_client_refl: "on_client c w w"
  by (simp add: on_client_def new_calls_def)

lemma on_client_trans: "on_client c w w1 \<Longrightarrow> on_client c w1 w2 \<Longrightarrow> on_client c w w2"
proof -
  assume "on_client c w w1" and "on_client c w1 w2"
  then obtain cs ds where "call_log w1 = call_log w @ cs"
    and "list_all (\<lambda>x. call_client x = Some c) cs"
    and "call_log w2 = call_log w1 @ ds" and "list_all (\<lambda>x. call_client x = Some c) ds"
    by (blast dest: on_client_split)
  then show ?thesis by (intro on_client_append [of _ _ "cs @ ds"]) auto
qed

lemma requests_not_construction: "call_client x = Some c \<Longrightarrow> \<not> is_construction x"
  by (cases x) auto

lemma exhaust_on_client:
  "priv_s3_client m = Some c \<Longrightarrow> exhaust g m w = (r, m', w') \<Longrightarrow> m' = m \<and> on_client c w w'"
  by (cases g)
     (auto simp: s3_client_cached sdk_get_paginator_def sdk_paginate_def invoke_def
        on_client_def new_calls_def
        split: prod.splits sum.splits option.splits)

lemma upload_on_client:
  "priv_s3_client m = Some c \<Longrightarrow> AWSCloudManager_upload_object m f b k w = (r, m', w') \<Longrightarrow>
     m' = m \<and> on_client c w w'"
  by (auto simp: AWSCloudManager_upload_object_def s3_client_cached sdk_upload_file_def invoke_def
        on_client_def new_calls_def split: prod.splits sum.splits option.splits)

lemma download_on_client:
  "priv_s3_client m = Some c \<Longrightarrow> AWSCloudManager_download_object m b k f w = (r, m', w') \<Longrightarrow>
     m' = m \<and> on_client c w w'"
  by (auto simp: AWSCloudManager_download_object_def s3_client_cached sdk_download_file_def invoke_def
        on_client_def new_calls_def split: prod.splits sum.splits option.splits)

lemma delete_on_client:
  "priv_s3_client m = Some c \<Longrightarrow> AWSCloudManager_delete_object m b k w = (r, m', w') \<Longrightarrow>
     m' = m \<and> on_client c w w'"
  by (auto simp: AWSCloudManager_delete_object_def s3_client_cached sdk_delete_object_def invoke_def
        on_client_def new_calls_def split: prod.splits sum.splits option.splits)

lemma copy_on_client:
  "sdk_copy_object c b k src w = (r, w') \<Longrightarrow> on_client c w w'"
  by (auto simp: sdk_copy_object_def invoke_def
        on_client_def new_calls_def split: prod.splits sum.splits option.splits)

lemma move_on_client:
  assumes "priv_s3_client m = Some c"
      and "AWSCloudManager_move_object m b k dk d w = (r, m', w')"
  shows "m' = m \<and> on_client c w w'"
proof -
  obtain ru m1 w1 where up: "AWSCloudManager_upload_object m b k dk w = (ru, m1, w1)"
    by (cases "AWSCloudManager_upload_object m b k dk w") auto
  from upload_on_client [OF assms(1) up] have m1: "m1 = m" and o1: "on_client c w w1" by auto
  show ?thesis
  proof (cases "d \<and> ru = Inr ()")
    case False
    with assms(2) up m1 o1 show ?thesis
      by (auto simp: AWSCloudManager_move_object_def split: sum.splits)
  next
    case True
    with assms(2) up m1 have "AWSCloudManager_delete_object m b k w1 = (r, m', w')"
      by (auto simp: AWSCloudManager_move_object_def)
    from delete_on_client [OF assms(1) this] o1 show ?thesis
      by (auto intro: on_client_trans)
  qed
qed

lemma transfer_on_client:
  assumes "priv_s3_client m = Some c"
      and "AWSCloudManager_transfer_object m b k db dk d w = (r, m', w')"
  shows "m' = m \<and> on_client c w w'"
proof -
  obtain rc w1 where cp: "sdk_copy_object c db dk (b @ ''/'' @ k) w = (rc, w1)"
    by (cases "sdk_copy_object c db dk (b @ ''/'' @ k) w") auto
  note o1 = copy_on_client [OF cp]
  show ?thesis
  proof (cases "d \<and> rc = Inr ()")
    case False
    with assms cp o1 show ?thesis
      by (auto simp: AWSCloudManager_transfer_object_def s3_client_cached split: sum.splits)
  next
    case True
    with assms cp have "AWSCloudManager_delete_object m b k w1 = (r, m', w')"
      by (auto simp: AWSCloudManager_transfer_object_def s3_client_cached)
    from delete_on_client [OF assms(1) this] o1 show ?thesis
      by (auto intro: on_client_trans)
  qed
qed

lemma AWS_call_on_client:
  "priv_s3_client m = Some c \<Longrightarrow> AWSCloudManager_call operation m w = (r, m', w') \<Longrightarrow>
     m' = m \<and> on_client c w w'"
  by (cases operation)
     (auto split: prod.splits
           dest: upload_on_client download_on_client move_on_client transfer_on_client
                 delete_on_client exhaust_on_client)

lemma AWS_calls_on_client:
  "priv_s3_client m = Some c \<Longrightarrow> AWSCloudManager_calls ops m w = (rs, m', w') \<Longrightarrow>
     m' = m \<and> on_client c w w'"
proof (induction ops arbitrary: w rs m' w')
  case Nil
  then show ?case by (simp add: on_client_refl)
next
  case (Cons operation ops)
  obtain r m1 w1 where 1: "AWSCloudManager_call operation m w = (r, m1, w1)"
    by (cases "AWSCloudManager_call operation m w") auto
  from AWS_call_on_client [OF Cons.prems(1) 1] have m1: "m1 = m" and o1: "on_client c w w1" by auto
  obtain rs2 m2 w2 where 2: "AWSCloudManager_calls ops m w1 = (rs2, m2, w2)"
    by (cases "AWSCloudManager_calls ops m w1") auto
  from Cons.IH [OF Cons.prems(1) 2] have "m2 = m" and "on_client c w1 w2" by auto
  with Cons.prems(2) 1 2 m1 o1 show ?case by (auto intro: on_client_trans)
qed

lemma s3_client_fresh:
  assumes "priv_s3_client m = None"
      and "faults w (length (call_log w)) (Boto3_Session (profile_name m)) = None"
      and "faults w (Suc (length (call_log w))) (Client (profile_name m) ''s3'' (region_name m)) = None"
  shows "s3_client m w =
           (Inr \<lparr>client_id = Suc (length (call_log w)), client_profile_name = profile_name m,
                  client_service = ''s3'', client_region_name = region_name m\<rparr>,
            m\<lparr>priv_s3_client :=
                 Some \<lparr>client_id = Suc (length (call_log w)), client_profile_name = profile_name m,
                        client_service = ''s3'', client_region_name = region_name m\<rparr>\<rparr>,
            w\<lparr>call_log := call_log w @ [Boto3_Session (profile_name m),
                                        Client (profile_name m) ''s3'' (region_name m)]\<rparr>)"
  using assms by (simp add: s3_client_def sdk_Session_def sdk_client_def invoke_def)

lemma upload_after_client:
  "s3_client m w = (Inr c, m1, w1) \<Longrightarrow>
     AWSCloudManager_upload_object m f b k w = AWSCloudManager_upload_object m1 f b k w1"
  by (frule s3_client_Inr) (simp add: AWSCloudManager_upload_object_def s3_client_cached)

lemma download_after_client:
  "s3_client m w = (Inr c, m1, w1) \<Longrightarrow>
     AWSCloudManager_download_object m b k f w = AWSCloudManager_download_object m1 b k f w1"
  by (frule s3_client_Inr) (simp add: AWSCloudManager_download_object_def s3_client_cached)

lemma delete_after_client:
  "s3_client m w = (Inr c, m1, w1) \<Longrightarrow>
     AWSCloudManager_delete_object m b k w = AWSCloudManager_delete_object m1 b k w1"
  by (frule s3_client_Inr) (simp add: AWSCloudManager_delete_object_def s3_client_cached)

lemma move_after_client:
  "s3_client m w = (Inr c, m1, w1) \<Longrightarrow>
     AWSCloudManager_move_object m b k dk d w = AWSCloudManager_move_object m1 b k dk d w1"
  by (simp add: AWSCloudManager_move_object_def upload_after_client)

lemma transfer_after_client:
  "s3_client m w = (Inr c, m1, w1) \<Longrightarrow>
     AWSCloudManager_transfer_object m b k db dk d w =
     AWSCloudManager_transfer_object m1 b k db dk d w1"
  by (frule s3_client_Inr) (simp add: AWSCloudManager_transfer_object_def s3_client_cached)

lemma exhaust_after_client:
  "s3_client m w = (Inr c, m1, w1) \<Longrightarrow> exhaust g m w = exhaust g m1 w1"
  by (frule s3_client_Inr, cases g) (simp add: s3_client_cached)

lemma call_after_client:
  "s3_client m w = (Inr c, m1, w1) \<Longrightarrow>
     AWSCloudManager_call operation m w = AWSCloudManager_call operation m1 w1"
  by (cases operation)
     (simp_all add: upload_after_client download_after_client delete_after_client
        move_after_client transfer_after_client exhaust_after_client AWSCloudManager_list_dir_def
      del: exhaust.simps)

lemma call_without_client:
  "s3_client m w = (Inl e, m1, w1) \<Longrightarrow> fst (snd (AWSCloudManager_call operation m w)) = m"
  by (frule s3_client_Inl, cases operation)
     (simp_all add: AWSCloudManager_upload_object_def AWSCloudManager_download_object_def
        AWSCloudManager_delete_object_def AWSCloudManager_move_object_def
        AWSCloudManager_transfer_object_def AWSCloudManager_list_dir_def)

lemma call_keeps_fields:
  "fst (snd (AWSCloudManager_call operation m w))\<lparr>priv_s3_client := None\<rparr> =
     m\<lparr>priv_s3_client := None\<rparr>"
proof -
  obtain rc m1 w1 where cl: "s3_client m w = (rc, m1, w1)"
    by (cases "s3_client m w") auto
  show ?thesis
  proof (cases rc)
    case (Inl e)
    with cl call_without_client show ?thesis by simp
  next
    case (Inr c)
    with cl have 1: "s3_client m w = (Inr c, m1, w1)" by simp
    from s3_client_Inr [OF 1] have c: "priv_s3_client m1 = Some c"
      and m1: "m1 = m\<lparr>priv_s3_client := Some c\<rparr>" by auto
    obtain r m' w' where 2: "AWSCloudManager_call operation m1 w1 = (r, m', w')"
      by (cases "AWSCloudManager_call operation m1 w1") auto
    from AWS_call_on_client [OF c 2] have "m' = m1" by simp
    with call_after_client [OF 1, of operation] 2 m1 show ?thesis by simp
  qed
qed

lemma first_use_builds_client:
  assumes "priv_s3_client m = None"
      and "faults w (length (call_log w)) (Boto3_Session (profile_name m)) = None"
      and "faults w (Suc (length (call_log w))) (Client (profile_name m) ''s3'' (region_name m)) = None"
  shows "\<exists>c. priv_s3_client (fst (snd (AWSCloudManager_call operation m w))) = Some c \<and>
             client_profile_name c = profile_name m \<and> client_region_name c = region_name m \<and>
             filter is_construction (new_calls w (snd (snd (AWSCloudManager_call operation m w)))) =
               [Boto3_Session (profile_name m), Client (profile_name m) ''s3'' (region_name m)]"
proof -
  let ?c = "\<lparr>client_id = Suc (length (call_log w)), client_profile_name = profile_name m,
              client_service = ''s3'', client_region_name = region_name m\<rparr>"
  let ?m1 = "m\<lparr>priv_s3_client := Some ?c\<rparr>"
  let ?w1 = "w\<lparr>call_log := call_log w @ [Boto3_Session (profile_name m),
                                          Client (profile_name m) ''s3'' (region_name m)]\<rparr>"
  note cl = s3_client_fresh [OF assms]
  obtain r m' w' where 2: "AWSCloudManager_call operation ?m1 ?w1 = (r, m', w')"
    by (cases "AWSCloudManager_call operation ?m1 ?w1") auto
  have c: "priv_s3_client ?m1 = Some ?c" by simp
  from AWS_call_on_client [OF c 2] have m': "m' = ?m1" and oc: "on_client ?c ?w1 w'" by auto
  from oc obtain cs where lg: "call_log w' = call_log ?w1 @ cs"
    and cs: "list_all (\<lambda>x. call_client x = Some ?c) cs"
    unfolding on_client_def new_calls_def by (metis append_take_drop_id)
  have "call_client x = Some ?c \<Longrightarrow> \<not> is_construction x" for x
    by (cases x) auto
  with cs have "filter is_construction cs = []"
    by (auto simp: list_all_iff filter_empty_conv)
  with lg have "filter is_construction (new_calls w w') =
      [Boto3_Session (profile_name m), Client (profile_name m) ''s3'' (region_name m)]"
    by (simp add: new_calls_def)
  with call_after_client [OF cl, of operation] 2 m' show ?thesis by simp
qed


lemma calls_keep_fields:
  "fst (snd (AWSCloudManager_calls ops m w))\<lparr>priv_s3_client := None\<rparr> =
     m\<lparr>priv_s3_client := None\<rparr>"
proof (induction ops arbitrary: m w)
  case Nil
  then show ?case by simp
next
  case (Cons operation ops)
  obtain r m1 w1 where 1: "AWSCloudManager_call operation m w = (r, m1, w1)"
    by (cases "AWSCloudManager_call operation m w") auto
  with call_keeps_fields [of operation m w]
  have "m1\<lparr>priv_s3_client := None\<rparr> = m\<lparr>priv_s3_client := None\<rparr>" by simp
  with Cons.IH [of m1 w1] 1 show ?case by (auto split: prod.splits)
qed

lemma fresh_calls_cache_manager:
  assumes "ops \<noteq> []"
  shows "\<exists>m. priv_manager (fst (snd (CloudManager_calls ops
                 (CloudManager_init (Member AWS) config) w))) = Some m \<and>
             m\<lparr>priv_s3_client := None\<rparr> = AWSCloudManager_init config"
proof -
  let ?cm = "CloudManager_init (Member AWS) config"
  let ?m0 = "AWSCloudManager_init config"
  from assms obtain operation rest where ops: "ops = operation # rest" by (cases ops) auto
  have mgr: "manager ?cm = (Some ?m0, ?cm\<lparr>priv_manager := Some ?m0\<rparr>)"
    using manager_fresh [of ?cm] by (simp add: CloudManager_init_def)
  obtain r m1 w1 where 1: "AWSCloudManager_call operation ?m0 w = (r, m1, w1)"
    by (cases "AWSCloudManager_call operation ?m0 w") auto
  with call_keeps_fields [of operation ?m0 w]
  have k1: "m1\<lparr>priv_s3_client := None\<rparr> = ?m0\<lparr>priv_s3_client := None\<rparr>" by simp
  from call_forwards [OF mgr, of operation w] 1
  have 2: "CloudManager_call operation ?cm w = (r, ?cm\<lparr>priv_manager := Some m1\<rparr>, w1)"
    by simp
  obtain rs m2 w2 where 3: "AWSCloudManager_calls rest m1 w1 = (rs, m2, w2)"
    by (cases "AWSCloudManager_calls rest m1 w1") auto
  with calls_keep_fields [of rest m1 w1]
  have k2: "m2\<lparr>priv_s3_client := None\<rparr> = m1\<lparr>priv_s3_client := None\<rparr>" by simp
  have "priv_manager (?cm\<lparr>priv_manager := Some m1\<rparr>) = Some m1" by simp
  from calls_forward [OF this, of rest w1] 3
  have "CloudManager_calls rest (?cm\<lparr>priv_manager := Some m1\<rparr>) w1 =
          (rs, ?cm\<lparr>priv_manager := Some m2\<rparr>, w2)" by simp
  with ops 2 have "priv_manager (fst (snd (CloudManager_calls ops ?cm w))) = Some m2" by simp
  moreover from k1 k2 have "m2\<lparr>priv_s3_client := None\<rparr> = ?m0"
    by (simp add: AWSCloudManager_init_def)
  ultimately show ?thesis by blast
qed

lemma cached_client_reused:
  assumes "priv_manager self = Some m" and "priv_s3_client m = Some c"
  shows "priv_manager (fst (snd (CloudManager_calls ops self w))) = Some m \<and>
         on_client c w (snd (snd (CloudManager_calls ops self w)))"
proof -
  obtain rs m1 w1 where 1: "AWSCloudManager_calls ops m w = (rs, m1, w1)"
    by (cases "AWSCloudManager_calls ops m w") auto
  from AWS_calls_on_client [OF assms(2) 1] have "m1 = m" and "on_client c w w1" by auto
  with calls_forward [OF assms(1), of ops w] 1 show ?thesis by simp
qed

text \<open>
  C5, as stated for every \<open>CloudManager\<close>, fails for one whose provider is not a
  member the \<open>match\<close> knows: its first operation call builds no concrete client and
  caches none.
\<close>

theorem first_call_without_client_counterexample:
  "priv_manager (fst (snd (CloudManager_call (Call_delete_object ''test-bucket'' ''k'')
                             (CloudManager_init (NonMember ''gcp'') Map.empty) quiet_world)))
     = None
   \<and> fst (CloudManager_call (Call_delete_object ''test-bucket'' ''k'')
            (CloudManager_init (NonMember ''gcp'') Map.empty) quiet_world)
     = Raised (AttributeError ''delete_object'')"
  by (simp add: CloudManager_delete_object_def manager_def CloudManager_init_def)

text \<open>
  C5, amended. Neither constructor builds anything: a new \<open>CloudManager\<close> has no
  concrete client and a new \<open>AWSCloudManager\<close> has no network client. On a
  \<open>CloudManager\<close> whose provider is \<open>CloudProvider.AWS\<close>, after the first operation
  call and after any number of further ones the cached concrete client is the one
  built from the configuration (it differs from a newly built one in its cached
  network client only). The network client is built at the first use, by one
  \<open>boto3.Session(profile_name=...)\<close> and one \<open>session.client("s3", region_name=...)\<close>
  (when neither raises), and cached; once a network client \<open>c\<close> is cached, any sequence
  of operations through the facade leaves the same concrete client with the same \<open>c\<close>
  cached, and every external call it makes is a request on \<open>c\<close>: no session and no
  client is built again.
\<close>

theorem manager_and_client_built_once:
  "priv_manager (CloudManager_init provider config) = None
   \<and> priv_s3_client (AWSCloudManager_init config) = None
   \<and> (ops \<noteq> [] \<longrightarrow>
        (\<exists>m. priv_manager (fst (snd (CloudManager_calls ops
                  (CloudManager_init (Member AWS) config) w))) = Some m \<and>
             m\<lparr>priv_s3_client := None\<rparr> = AWSCloudManager_init config))
   \<and> (priv_manager self = Some m \<and> priv_s3_client m = Some c \<longrightarrow>
        priv_manager (fst (snd (CloudManager_calls ops self w))) = Some m \<and>
        on_client c w (snd (snd (CloudManager_calls ops self w))))
   \<and> (priv_s3_client m = None
        \<and> faults w (length (call_log w)) (Boto3_Session (profile_name m)) = None
        \<and> faults w (Suc (length (call_log w)))
              (Client (profile_name m) ''s3'' (region_name m)) = None \<longrightarrow>
        (\<exists>c. priv_s3_client (fst (snd (AWSCloudManager_call operation m w))) = Some c \<and>
             client_profile_name c = profile_name m \<and> client_region_name c = region_name m \<and>
             filter is_construction
               (new_calls w (snd (snd (AWSCloudManager_call operation m w)))) =
               [Boto3_Session (profile_name m), Client (profile_name m) ''s3'' (region_name m)]))"
proof (intro conjI impI)
  show "priv_manager (CloudManager_init provider config) = None"
    by (simp add: CloudManager_init_def)
  show "priv_s3_client (AWSCloudManager_init config) = None"
    by (simp add: AWSCloudManager_init_def)
next
  assume "ops \<noteq> []"
  then show "\<exists>m. priv_manager (fst (snd (CloudManager_calls ops
                  (CloudManager_init (Member AWS) config) w))) = Some m \<and>
             m\<lparr>priv_s3_client := None\<rparr> = AWSCloudManager_init config"
    by (rule fresh_calls_cache_manager)
next
  assume a: "priv_manager self = Some m \<and> priv_s3_client m = Some c"
  then show "priv_manager (fst (snd (CloudManager_calls ops self w))) = Some m"
    using cached_client_reused by blast
  from a show "on_client c w (snd (snd (CloudManager_calls ops self w)))"
    using cached_client_reused by blast
next
  assume "priv_s3_client m = None
        \<and> faults w (length (call_log w)) (Boto3_Session (profile_name m)) = None
        \<and> faults w (Suc (length (call_log w)))
              (Client (profile_name m) ''s3'' (region_name m)) = None"
  then show "\<exists>c. priv_s3_client (fst (snd (AWSCloudManager_call operation m w))) = Some c \<and>
             client_profile_name c = profile_name m \<and> client_region_name c = region_name m \<and>
             filter is_construction
               (new_calls w (snd (snd (AWSCloudManager_call operation m w)))) =
               [Boto3_Session (profile_name m), Client (profile_name m) ''s3'' (region_name m)]"
    using first_use_builds_client by blast
qed

theorem manager_and_client_built_once_witness:
  "priv_manager (fst (snd (CloudManager_calls
       [Call_delete_object ''test-bucket'' ''k'', Call_list_dir ''test-bucket'' ''a/'']
       warm_facade warm_world))) = Some warm_manager
   \<and> on_client default_client warm_world (snd (snd (CloudManager_calls
       [Call_delete_object ''test-bucket'' ''k'', Call_list_dir ''test-bucket'' ''a/'']
       warm_facade warm_world)))
   \<and> filter is_construction (new_calls quiet_world
        (snd (snd (AWSCloudManager_call (Call_delete_object ''test-bucket'' ''k'')
                     (AWSCloudManager_init Map.empty) quiet_world))))
       = [Boto3_Session None, Client None ''s3'' (Some ''us-east-1'')]
   \<and> priv_manager (fst (snd (CloudManager_calls
       [Call_delete_object ''test-bucket'' ''k'', Call_list_dir ''test-bucket'' ''a/'']
       (CloudManager_init (Member AWS) Map.empty) quiet_world))) \<noteq> None"
proof -
  let ?ops = "[Call_delete_object ''test-bucket'' ''k'', Call_list_dir ''test-bucket'' ''a/'']"
  have some: "?ops \<noteq> []" by simp
  from manager_and_client_built_once
         [where ops = ?ops and config = Map.empty and w = quiet_world
            and provider = "Member AWS" and self = warm_facade and m = warm_manager
            and c = default_client and operation = "Call_list_dir [] []"] some
  have "\<exists>m. priv_manager (fst (snd (CloudManager_calls ?ops
               (CloudManager_init (Member AWS) Map.empty) quiet_world))) = Some m \<and>
            m\<lparr>priv_s3_client := None\<rparr> = AWSCloudManager_init Map.empty"
    by blast
  then have 0: "priv_manager (fst (snd (CloudManager_calls ?ops
             (CloudManager_init (Member AWS) Map.empty) quiet_world))) \<noteq> None"
    by (auto simp del: CloudManager_calls.simps CloudManager_call.simps)
  have warm: "priv_manager warm_facade = Some warm_manager
                \<and> priv_s3_client warm_manager = Some default_client"
    by (simp add: warm_facade_def warm_manager_def)
  have cold: "priv_s3_client (AWSCloudManager_init Map.empty) = None
      \<and> faults quiet_world (length (call_log quiet_world))
            (Boto3_Session (profile_name (AWSCloudManager_init Map.empty))) = None
      \<and> faults quiet_world (Suc (length (call_log quiet_world)))
            (Client (profile_name (AWSCloudManager_init Map.empty)) ''s3''
               (region_name (AWSCloudManager_init Map.empty))) = None"
    by (simp add: AWSCloudManager_init_def quiet_world_def)
  have fields: "profile_name (AWSCloudManager_init Map.empty) = None"
    "region_name (AWSCloudManager_init Map.empty) = Some ''us-east-1''"
    by (simp_all add: AWSCloudManager_init_def dict_get_def)
  from manager_and_client_built_once
         [where self = warm_facade and m = warm_manager and c = default_client
            and ops = ?ops and w = warm_world] warm
  have 1: "priv_manager (fst (snd (CloudManager_calls ?ops warm_facade warm_world)))
             = Some warm_manager"
    and 2: "on_client default_client warm_world
              (snd (snd (CloudManager_calls ?ops warm_facade warm_world)))"
    by blast+
  from manager_and_client_built_once
         [where m = "AWSCloudManager_init Map.empty" and w = quiet_world
            and operation = "Call_delete_object ''test-bucket'' ''k''"] cold
  have "\<exists>c. priv_s3_client (fst (snd (AWSCloudManager_call
                  (Call_delete_object ''test-bucket'' ''k'')
                  (AWSCloudManager_init Map.empty) quiet_world))) = Some c \<and>
             client_profile_name c = profile_name (AWSCloudManager_init Map.empty) \<and>
             client_region_name c = region_name (AWSCloudManager_init Map.empty) \<and>
             filter is_construction (new_calls quiet_world
               (snd (snd (AWSCloudManager_call (Call_delete_object ''test-bucket'' ''k'')
                            (AWSCloudManager_init Map.empty) quiet_world)))) =
               [Boto3_Session (profile_name (AWSCloudManager_init Map.empty)),
                Client (profile_name (AWSCloudManager_init Map.empty)) ''s3''
                  (region_name (AWSCloudManager_init Map.empty))]"
    by blast
  with fields have 3: "filter is_construction (new_calls quiet_world
        (snd (snd (AWSCloudManager_call (Call_delete_object ''test-bucket'' ''k'')
                     (AWSCloudManager_init Map.empty) quiet_world))))
       = [Boto3_Session None, Client None ''s3'' (Some ''us-east-1'')]"
    by auto
  from 0 1 2 3 show ?thesis by blast
qed

section \<open>The stored credentials\<close>

lemma s3_client_credentials:
  "s3_client (with_credentials a s t m) w =
     (case s3_client m w of (r, m1, w1) \<Rightarrow> (r, with_credentials a s t m1, w1))"
  by (auto simp: s3_client_def with_credentials_def split: option.splits prod.splits sum.splits)

lemma upload_credentials:
  "AWSCloudManager_upload_object (with_credentials a s t m) f b k w =
     (case AWSCloudManager_upload_object m f b k w of (r, m1, w1) \<Rightarrow> (r, with_credentials a s t m1, w1))"
  by (auto simp: AWSCloudManager_upload_object_def s3_client_credentials split: prod.splits sum.splits)

lemma download_credentials:
  "AWSCloudManager_download_object (with_credentials a s t m) b k f w =
     (case AWSCloudManager_download_object m b k f w of (r, m1, w1) \<Rightarrow> (r, with_credentials a s t m1, w1))"
  by (auto simp: AWSCloudManager_download_object_def s3_client_credentials split: prod.splits sum.splits)

lemma delete_credentials:
  "AWSCloudManager_delete_object (with_credentials a s t m) b k w =
     (case AWSCloudManager_delete_object m b k w of (r, m1, w1) \<Rightarrow> (r, with_credentials a s t m1, w1))"
  by (auto simp: AWSCloudManager_delete_object_def s3_client_credentials split: prod.splits sum.splits)

lemma move_credentials:
  "AWSCloudManager_move_object (with_credentials a s t m) b k dk d w =
     (case AWSCloudManager_move_object m b k dk d w of (r, m1, w1) \<Rightarrow> (r, with_credentials a s t m1, w1))"
  by (auto simp: AWSCloudManager_move_object_def upload_credentials delete_credentials
           split: prod.splits sum.splits)

lemma transfer_credentials:
  "AWSCloudManager_transfer_object (with_credentials a s t m) b k db dk d w =
     (case AWSCloudManager_transfer_object m b k db dk d w of (r, m1, w1) \<Rightarrow> (r, with_credentials a s t m1, w1))"
  by (auto simp: AWSCloudManager_transfer_object_def s3_client_credentials delete_credentials Let_def
           split: prod.splits sum.splits)

lemma exhaust_credentials:
  "exhaust g (with_credentials a s t m) w =
     (case exhaust g m w of (r, m1, w1) \<Rightarrow> (r, with_credentials a s t m1, w1))"
  by (cases g) (auto simp: s3_client_credentials split: prod.splits sum.splits)

lemma call_credentials:
  "AWSCloudManager_call operation (with_credentials a s t m) w =
     (case AWSCloudManager_call operation m w of (r, m1, w1) \<Rightarrow> (r, with_credentials a s t m1, w1))"
  by (cases operation)
     (auto simp: upload_credentials download_credentials delete_credentials move_credentials
        transfer_credentials exhaust_credentials AWSCloudManager_list_dir_def split: prod.splits)

lemma calls_credentials:
  "AWSCloudManager_calls ops (with_credentials a s t m) w =
     (case AWSCloudManager_calls ops m w of (rs, m1, w1) \<Rightarrow> (rs, with_credentials a s t m1, w1))"
proof (induction ops arbitrary: m w)
  case Nil
  then show ?case by simp
next
  case (Cons operation ops)
  show ?case
    by (simp add: call_credentials Cons.IH split: prod.splits)
qed

lemma init_credentials:
  assumes "cfg1 ''aws_profile_name'' = cfg2 ''aws_profile_name''"
      and "cfg1 ''aws_region_name'' = cfg2 ''aws_region_name''"
  shows "AWSCloudManager_init cfg1 =
           with_credentials (dict_get cfg1 ''aws_access_key_id'' None)
             (dict_get cfg1 ''aws_secret_key_id'' None) (dict_get cfg1 ''aws_session_token'' None)
             (AWSCloudManager_init cfg2)"
  using assms by (simp add: AWSCloudManager_init_def with_credentials_def dict_get_def)

text \<open>
  C9. For any two configurations that agree on \<open>aws_profile_name\<close> and
  \<open>aws_region_name\<close>, whatever their \<open>aws_access_key_id\<close>, \<open>aws_secret_key_id\<close> and
  \<open>aws_session_token\<close>: any sequence of operations on the two \<open>AWSCloudManager\<close>s, in
  the same world, has the same outcomes, leaves the same world (the same store and
  files and the same log of external calls, those that build the session and the
  client included, with the same arguments) and the same cached client. The stored
  credentials reach no call.
\<close>

theorem credentials_never_reach_the_sdk:
  assumes "cfg1 ''aws_profile_name'' = cfg2 ''aws_profile_name''"
      and "cfg1 ''aws_region_name'' = cfg2 ''aws_region_name''"
  shows "fst (AWSCloudManager_calls ops (AWSCloudManager_init cfg1) w) =
           fst (AWSCloudManager_calls ops (AWSCloudManager_init cfg2) w)
       \<and> snd (snd (AWSCloudManager_calls ops (AWSCloudManager_init cfg1) w)) =
           snd (snd (AWSCloudManager_calls ops (AWSCloudManager_init cfg2) w))
       \<and> priv_s3_client (fst (snd (AWSCloudManager_calls ops (AWSCloudManager_init cfg1) w))) =
           priv_s3_client (fst (snd (AWSCloudManager_calls ops (AWSCloudManager_init cfg2) w)))"
proof -
  have "AWSCloudManager_calls ops (AWSCloudManager_init cfg1) w =
          (case AWSCloudManager_calls ops (AWSCloudManager_init cfg2) w of
             (rs, m1, w1) \<Rightarrow>
               (rs, with_credentials (dict_get cfg1 ''aws_access_key_id'' None)
                      (dict_get cfg1 ''aws_secret_key_id'' None)
                      (dict_get cfg1 ''aws_session_token'' None) m1, w1))"
    by (simp only: init_credentials [OF assms] calls_credentials)
  then show ?thesis by (simp add: with_credentials_def split: prod.splits)
qed

theorem credentials_never_reach_the_sdk_witness:
  "fst (AWSCloudManager_calls [Call_upload_object ''test.txt'' ''test-bucket'' ''test.txt'']
          (AWSCloudManager_init keyed_config) hello_world)
     = [Returned]
   \<and> call_log (snd (snd (AWSCloudManager_calls
          [Call_upload_object ''test.txt'' ''test-bucket'' ''test.txt'']
          (AWSCloudManager_init keyed_config) hello_world)))
     = [Boto3_Session None, Client None ''s3'' (Some ''us-east-1''),
        Upload_file default_client ''test.txt'' ''test-bucket'' ''test.txt'']
   \<and> access_key_id (AWSCloudManager_init keyed_config) = Some ''AKIA''"
proof -
  let ?ops = "[Call_upload_object ''test.txt'' ''test-bucket'' ''test.txt'']"
  have p: "keyed_config ''aws_profile_name'' = (Map.empty :: AWSConfig) ''aws_profile_name''"
    by (simp add: keyed_config_def)
  have r: "keyed_config ''aws_region_name'' = (Map.empty :: AWSConfig) ''aws_region_name''"
    by (simp add: keyed_config_def)
  have plain: "AWSCloudManager_calls ?ops (AWSCloudManager_init Map.empty) hello_world =
      ([Returned], (AWSCloudManager_init Map.empty)\<lparr>priv_s3_client := Some default_client\<rparr>,
       hello_world\<lparr>call_log := [Boto3_Session None, Client None ''s3'' (Some ''us-east-1''),
                       Upload_file default_client ''test.txt'' ''test-bucket'' ''test.txt''],
                    objects := [(''test-bucket'', ''test.txt'') \<mapsto> ''Hello, world!'']\<rparr>)"
    by (simp add: AWSCloudManager_upload_object_def s3_client_def AWSCloudManager_init_def
          dict_get_def sdk_Session_def sdk_client_def sdk_upload_file_def invoke_def
          hello_world_def quiet_world_def default_client_def)
  have key: "access_key_id (AWSCloudManager_init keyed_config) = Some ''AKIA''"
    by (simp add: AWSCloudManager_init_def dict_get_def keyed_config_def)
  from credentials_never_reach_the_sdk [OF p r, of ?ops hello_world] key
  show ?thesis unfolding plain
    by (simp del: AWSCloudManager_calls.simps AWSCloudManager_call.simps)
qed

section \<open>The provider selector\<close>

lemma lower_char_eq:
  assumes "97 \<le> (of_char x :: nat)" "(of_char x :: nat) \<le> 122"
  shows "lower_char c = x \<longleftrightarrow> c = x \<or> c = char_of (of_char x - 32 :: nat)"
proof -
  let ?n = "of_char c :: nat"
  let ?x = "of_char x :: nat"
  have lt: "?n < 256" by simp
  show ?thesis
  proof (cases "65 \<le> ?n \<and> ?n \<le> 90")
    case True
    then have "lower_char c = char_of (?n + 32)" by (simp add: lower_char_def)
    moreover have "char_of (?n + 32) = x \<longleftrightarrow> ?n + 32 = ?x"
      using True by (simp add: char_of_eq_iff take_bit_eq_mod)
    moreover have "?n + 32 = ?x \<longleftrightarrow> c = char_of (?x - 32)"
    proof
      assume "?n + 32 = ?x"
      then have "?x - 32 = ?n" by simp
      then show "c = char_of (?x - 32)" by simp
    next
      assume "c = char_of (?x - 32)"
      then have "?n = (?x - 32) mod 256" by simp
      with assms show "?n + 32 = ?x" by simp
    qed
    moreover have "c \<noteq> x" using True assms by auto
    ultimately show ?thesis by simp
  next
    case False
    then have "lower_char c = c" by (auto simp: lower_char_def)
    moreover have "c \<noteq> char_of (?x - 32)"
    proof
      assume "c = char_of (?x - 32)"
      then have "?n = (?x - 32) mod 256" by simp
      with assms have "?n = ?x - 32" by simp
      with assms False show False by auto
    qed
    ultimately show ?thesis by auto
  qed
qed

lemma upper_case_codes:
  "char_of (65 :: nat) = CHR ''A''" "char_of (87 :: nat) = CHR ''W''" "char_of (83 :: nat) = CHR ''S''"
  by (simp_all add: char_of_eq_iff)

lemma lower_char_a: "lower_char c = CHR ''a'' \<longleftrightarrow> c = CHR ''a'' \<or> c = CHR ''A''"
  using lower_char_eq [of "CHR ''a''" c] by (simp add: upper_case_codes)

lemma lower_char_w: "lower_char c = CHR ''w'' \<longleftrightarrow> c = CHR ''w'' \<or> c = CHR ''W''"
  using lower_char_eq [of "CHR ''w''" c] by (simp add: upper_case_codes)

lemma lower_char_s: "lower_char c = CHR ''s'' \<longleftrightarrow> c = CHR ''s'' \<or> c = CHR ''S''"
  using lower_char_eq [of "CHR ''s''" c] by (simp add: upper_case_codes)

lemma lower_aws:
  "lower name = ''aws'' \<longleftrightarrow>
     name \<in> {''aws'', ''awS'', ''aWs'', ''aWS'', ''Aws'', ''AwS'', ''AWs'', ''AWS''}"
proof -
  have "lower name = ''aws'' \<longleftrightarrow>
          (\<exists>a w s. name = [a, w, s] \<and> lower_char a = CHR ''a'' \<and> lower_char w = CHR ''w'' \<and> lower_char s = CHR ''s'')"
    by (auto simp: lower_def map_eq_Cons_conv)
  then show ?thesis
    by (auto simp: lower_char_a lower_char_w lower_char_s)
qed

lemma CloudProvider_call_aws: "CloudProvider_call v = Inr p \<longleftrightarrow> v = ''aws''"
  by (cases p) (auto simp: CloudProvider_call_def CloudProvider_members_def)

lemma is_prefix_append: "is_prefix p (p @ zs)"
  by (induction p) auto

lemma contains_here: "contains (p @ zs) p"
proof (cases p)
  case Nil
  then show ?thesis by (cases zs) simp_all
next
  case (Cons a l)
  then show ?thesis by (simp add: is_prefix_append)
qed

lemma contains_append: "contains ys p \<Longrightarrow> contains (xs @ ys) p"
  by (induction xs) auto

lemma contains_middle: "contains (xs @ p @ zs) p"
  by (rule contains_append) (rule contains_here)

lemma cloud_provider_recognized:
  "cloud_provider config = Inr p \<longleftrightarrow>
     (\<exists>name. priv_provider_name config = Some name \<and>
        name \<in> {''aws'', ''awS'', ''aWs'', ''aWS'', ''Aws'', ''AwS'', ''AWs'', ''AWS''})"
proof (cases "priv_provider_name config")
  case None
  then show ?thesis by (simp add: cloud_provider_def)
next
  case (Some name)
  show ?thesis
  proof (cases "name = []")
    case True
    with Some show ?thesis by (simp add: cloud_provider_def)
  next
    case False
    with Some have "cloud_provider config = Inr p \<longleftrightarrow> CloudProvider_call (lower name) = Inr p"
      by (auto simp: cloud_provider_def Let_def split: sum.splits)
    also have "\<dots> \<longleftrightarrow> lower name = ''aws''" by (rule CloudProvider_call_aws)
    also have "\<dots> \<longleftrightarrow> name \<in> {''aws'', ''awS'', ''aWs'', ''aWS'', ''Aws'', ''AwS'', ''AWs'', ''AWS''}"
      by (rule lower_aws)
    finally show ?thesis using Some by simp
  qed
qed

lemma cloud_provider_missing:
  "priv_provider_name config = None \<or> priv_provider_name config = Some [] \<Longrightarrow>
     cloud_provider config = Inl (ValueError ''CLOUD_PROVIDER environment variable is not set'')"
  by (auto simp: cloud_provider_def)

lemma cloud_provider_unrecognized:
  assumes "priv_provider_name config = Some name" and "name \<noteq> []" and "lower name \<noteq> ''aws''"
  shows "cloud_provider config =
           Inl (ValueError (''Invalid cloud provider: '' @ name @ ''. Valid providers: [''
                  @ [char_of (39::nat)] @ ''aws'' @ [char_of (39::nat)] @ '']''))"
proof -
  from assms(3) have "\<exists>err. CloudProvider_call (lower name) = Inl err"
    using CloudProvider_call_aws [of "lower name"] by (cases "CloudProvider_call (lower name)") auto
  with assms(1,2) show ?thesis
    by (auto simp: cloud_provider_def Let_def CloudProvider_members_def repr_list_def repr_str_def)
qed

lemma invalid_message_names_providers:
  "names_valid_providers (''Invalid cloud provider: '' @ name @ ''. Valid providers: [''
                  @ [char_of (39::nat)] @ ''aws'' @ [char_of (39::nat)] @ '']'')"
proof -
  have "contains ((''Invalid cloud provider: '' @ name @ ''. Valid providers: ['' @ [char_of (39::nat)])
          @ ''aws'' @ ([char_of (39::nat)] @ '']'')) ''aws''"
    by (rule contains_middle)
  then show ?thesis by (simp add: names_valid_providers_def CloudProvider_members_def)
qed

lemma main_without_provider:
  assumes "cloud_provider config = Inl e"
  shows "filter is_cloud_call (call_log (snd (main config db w))) = filter is_cloud_call (call_log w)
       \<and> fst (main config db w) \<noteq> Inr ()"
  using assms
  by (auto simp: main_def open_write_def invoke_def split: option.splits prod.splits)

text \<open>
  C8, as stated, fails for a missing selector: the error raised then says that the
  environment variable is not set and names no provider.
\<close>

theorem missing_selector_counterexample:
  "cloud_provider (Config_init Map.empty) =
     Inl (ValueError ''CLOUD_PROVIDER environment variable is not set'')
   \<and> \<not> names_valid_providers ''CLOUD_PROVIDER environment variable is not set''"
  by (simp add: cloud_provider_def Config_init_def getenv_def names_valid_providers_def
        CloudProvider_members_def)

text \<open>
  C8, amended. The provider selector is recognised exactly when it is "aws" in some
  casing (the eight spellings), and then resolves to the AWS provider. A missing
  selector (unset, or empty) fails with the configuration error "CLOUD_PROVIDER
  environment variable is not set"; an unrecognised one fails with a configuration
  error that quotes the selector and names the valid providers. Whenever the selector
  fails, \<open>main\<close> raises and makes no call to the provider's library: no \<open>CloudManager\<close>
  operation is attempted.
\<close>

theorem provider_selector:
  "(cloud_provider config = Inr p \<longleftrightarrow>
      (\<exists>name. priv_provider_name config = Some name \<and>
         name \<in> {''aws'', ''awS'', ''aWs'', ''aWS'', ''Aws'', ''AwS'', ''AWs'', ''AWS''}))
   \<and> (priv_provider_name config = None \<or> priv_provider_name config = Some [] \<longrightarrow>
        cloud_provider config = Inl (ValueError ''CLOUD_PROVIDER environment variable is not set''))
   \<and> (\<forall>name. priv_provider_name config = Some name \<and> name \<noteq> [] \<and> lower name \<noteq> ''aws'' \<longrightarrow>
        (\<exists>msg. cloud_provider config = Inl (ValueError msg) \<and> names_valid_providers msg \<and>
               msg = ''Invalid cloud provider: '' @ name @ ''. Valid providers: [''
                       @ [char_of (39::nat)] @ ''aws'' @ [char_of (39::nat)] @ '']''))
   \<and> (\<forall>e. cloud_provider config = Inl e \<longrightarrow>
        filter is_cloud_call (call_log (snd (main config db w))) = filter is_cloud_call (call_log w)
        \<and> fst (main config db w) \<noteq> Inr ())"
  using cloud_provider_recognized [of config p] cloud_provider_missing [of config]
    cloud_provider_unrecognized [of config] invalid_message_names_providers
    main_without_provider [of config _ db w]
  by (intro conjI allI impI) (simp, blast, blast, blast, blast)

theorem provider_selector_witness:
  "cloud_provider (Config_init [''CLOUD_PROVIDER'' \<mapsto> ''AwS'']) = Inr AWS
   \<and> cloud_provider (Config_init [''CLOUD_PROVIDER'' \<mapsto> ''azure'']) =
       Inl (ValueError (''Invalid cloud provider: azure. Valid providers: [''
              @ [char_of (39::nat)] @ ''aws'' @ [char_of (39::nat)] @ '']''))
   \<and> filter is_cloud_call (call_log (snd (main (Config_init [''CLOUD_PROVIDER'' \<mapsto> ''azure''])
                                              memory_db quiet_world))) = []
   \<and> cloud_provider (Config_init [''CLOUD_PROVIDER'' \<mapsto> []]) =
       Inl (ValueError ''CLOUD_PROVIDER environment variable is not set'')"
proof -
  let ?ok = "Config_init [''CLOUD_PROVIDER'' \<mapsto> ''AwS'']"
  let ?empty = "Config_init [''CLOUD_PROVIDER'' \<mapsto> []]"
  have n0: "priv_provider_name ?empty = None \<or> priv_provider_name ?empty = Some []"
    by (simp add: Config_init_def getenv_def)
  from provider_selector [of ?empty AWS] n0
  have 0: "cloud_provider ?empty =
             Inl (ValueError ''CLOUD_PROVIDER environment variable is not set'')"
    by blast
  let ?bad = "Config_init [''CLOUD_PROVIDER'' \<mapsto> ''azure'']"
  have n1: "priv_provider_name ?ok = Some ''AwS''" by (simp add: Config_init_def getenv_def)
  have n2: "priv_provider_name ?bad = Some ''azure'' \<and> ''azure'' \<noteq> [] \<and> lower ''azure'' \<noteq> ''aws''"
    by (simp add: Config_init_def getenv_def lower_def)
  from provider_selector [of ?ok AWS] n1 have 1: "cloud_provider ?ok = Inr AWS" by simp
  from provider_selector [of ?bad AWS memory_db quiet_world] n2
  have 2: "cloud_provider ?bad =
       Inl (ValueError (''Invalid cloud provider: azure. Valid providers: [''
              @ [char_of (39::nat)] @ ''aws'' @ [char_of (39::nat)] @ '']''))"
    by auto
  with provider_selector [of ?bad AWS memory_db quiet_world]
  have 3: "filter is_cloud_call (call_log (snd (main ?bad memory_db quiet_world)))
             = filter is_cloud_call (call_log quiet_world)"
    by blast
  from 0 1 2 3 show ?thesis by (simp add: quiet_world_def)
qed

section \<open>dl\_archiver: main and the read-only session\<close>

text \<open>
  X1. \<open>main\<close> of \<open>dl_archiver\<close> runs its update in \<open>db.session(readonly=True)\<close>. With a
  \<open>Database\<close> that has no read-only session factory it therefore never returns: if
  nothing fails before, the file is written and uploaded and the scope then raises.
\<close>

theorem main_needs_readonly_database:
  assumes "priv_session_ro db = None"
  shows "fst (main config db w) \<noteq> Inr ()"
  using assms
  by (auto simp: main_def Database_session_def Let_def
           split: prod.splits sum.splits)

theorem main_needs_readonly_database_witness:
  "fst (main (Config_init [''CLOUD_PROVIDER'' \<mapsto> ''aws'']) memory_db quiet_world)
     = Inl (RuntimeError readonly_not_configured)
   \<and> objects (snd (main (Config_init [''CLOUD_PROVIDER'' \<mapsto> ''aws'']) memory_db quiet_world))
       (''test-bucket'', ''test.txt'') = Some ''Hello, world!''"
proof -
  have ro: "priv_session_ro memory_db = None" by (simp add: memory_db_def)
  have cp: "cloud_provider (Config_init [''CLOUD_PROVIDER'' \<mapsto> ''aws'']) = Inr AWS"
    by (simp add: cloud_provider_def Config_init_def getenv_def lower_def lower_char_def
          CloudProvider_call_def CloudProvider_members_def)
  from main_needs_readonly_database
         [OF ro, of "Config_init [''CLOUD_PROVIDER'' \<mapsto> ''aws'']" quiet_world]
  show ?thesis
    by (simp add: main_def cp open_write_def invoke_def quiet_world_def CloudManager_init_def
          CloudManager_upload_object_def manager_def Let_def AWSCloudManager_init_def
          provider_config_def dict_get_def AWSCloudManager_upload_object_def s3_client_def
          sdk_Session_def sdk_client_def sdk_upload_file_def Database_session_def memory_db_def)
qed

end
